theory Spec2Isabelle
  imports Complex_Main "HOL-Library.Log_Nat" "HOL-Library.AList"
begin

section \<open>Numbers: the C++ type double\<close>

text \<open>
  \<^verbatim>\<open>Value::numVal\<close> is a C++ \<^verbatim>\<open>double\<close> (IEEE 754 binary64). A finite double is
  kept as a sign bit and the exact magnitude (a rational), so that both zeros exist;
  every arithmetic result is rounded to the nearest binary64 value, ties to even, and
  overflows to an infinity. The sign bit of a NaN is not kept.
\<close>

datatype double = Finite bool rat | Infinity bool | NaN

definition dzero :: double where
  "dzero = Finite False 0"

text \<open>The double that is the integer \<open>k\<close> (exact for the small integers used below).\<close>

definition lit :: "int \<Rightarrow> double" where
  "lit k = Finite (k < 0) (of_int \<bar>k\<bar>)"

fun signed_val :: "bool \<Rightarrow> rat \<Rightarrow> rat" where
  "signed_val s m = (if s then - m else m)"

definition round_half_even :: "rat \<Rightarrow> int" where
  "round_half_even x =
     (let f = \<lfloor>x\<rfloor>; d = x - of_int f
      in if d < 1 / 2 then f else if 1 / 2 < d then f + 1 else if even f then f else f + 1)"

definition ilog2 :: "rat \<Rightarrow> int" where
  "ilog2 m =
     (let (a, b) = quotient_of m; d = bitlen a - bitlen b
      in if 2 powi d \<le> m then d else d - 1)"

definition round_double :: "bool \<Rightarrow> rat \<Rightarrow> double" where
  "round_double s m =
     (if m = 0 then Finite s 0
      else
        let e = max (ilog2 m) (- 1022);
            ulp = 2 powi (e - 52);
            r = of_int (round_half_even (m / ulp)) * ulp
        in if 2 powi 1024 \<le> r then Infinity s else Finite s r)"

fun dneg :: "double \<Rightarrow> double" where
  "dneg (Finite s m) = Finite (\<not> s) m"
| "dneg (Infinity s) = Infinity (\<not> s)"
| "dneg NaN = NaN"

fun dadd :: "double \<Rightarrow> double \<Rightarrow> double" where
  "dadd (Finite s a) (Finite t b) =
     (let v = signed_val s a + signed_val t b
      in if v = 0 then Finite (s \<and> t) 0 else round_double (v < 0) \<bar>v\<bar>)"
| "dadd (Finite s a) (Infinity t) = Infinity t"
| "dadd (Infinity s) (Finite t b) = Infinity s"
| "dadd (Infinity s) (Infinity t) = (if s = t then Infinity s else NaN)"
| "dadd NaN y = NaN"
| "dadd x NaN = NaN"

definition dsub :: "double \<Rightarrow> double \<Rightarrow> double" where
  "dsub x y = dadd x (dneg y)"

fun dmul :: "double \<Rightarrow> double \<Rightarrow> double" where
  "dmul (Finite s a) (Finite t b) = round_double (s \<noteq> t) (a * b)"
| "dmul (Finite s a) (Infinity t) = (if a = 0 then NaN else Infinity (s \<noteq> t))"
| "dmul (Infinity s) (Finite t b) = (if b = 0 then NaN else Infinity (s \<noteq> t))"
| "dmul (Infinity s) (Infinity t) = Infinity (s \<noteq> t)"
| "dmul NaN y = NaN"
| "dmul x NaN = NaN"

fun ddiv :: "double \<Rightarrow> double \<Rightarrow> double" where
  "ddiv (Finite s a) (Finite t b) =
     (if b = 0 then (if a = 0 then NaN else Infinity (s \<noteq> t))
      else round_double (s \<noteq> t) (a / b))"
| "ddiv (Finite s a) (Infinity t) = Finite (s \<noteq> t) 0"
| "ddiv (Infinity s) (Finite t b) = Infinity (s \<noteq> t)"
| "ddiv (Infinity s) (Infinity t) = NaN"
| "ddiv NaN y = NaN"
| "ddiv x NaN = NaN"

fun dless :: "double \<Rightarrow> double \<Rightarrow> bool" where
  "dless (Finite s a) (Finite t b) = (signed_val s a < signed_val t b)"
| "dless (Finite s a) (Infinity t) = (\<not> t)"
| "dless (Infinity s) (Finite t b) = s"
| "dless (Infinity s) (Infinity t) = (s \<and> \<not> t)"
| "dless NaN y = False"
| "dless x NaN = False"

definition dgreater :: "double \<Rightarrow> double \<Rightarrow> bool" where
  "dgreater x y = dless y x"

fun deq :: "double \<Rightarrow> double \<Rightarrow> bool" where
  "deq (Finite s a) (Finite t b) = (signed_val s a = signed_val t b)"
| "deq (Infinity s) (Infinity t) = (s = t)"
| "deq x y = False"

text \<open>
  \<^verbatim>\<open>(long long)d\<close>: truncation toward zero. Outside the range of \<^verbatim>\<open>long long\<close>, and
  for an infinity or a NaN, C++ leaves the conversion undefined; the value written here
  is the one the x86-64 conversion instruction delivers.
\<close>

definition LLONG_MIN :: int where
  "LLONG_MIN = - (2 ^ 63)"

fun to_long_long :: "double \<Rightarrow> int" where
  "to_long_long (Finite s m) =
     (let k = (if s then - \<lfloor>m\<rfloor> else \<lfloor>m\<rfloor>)
      in if LLONG_MIN \<le> k \<and> k < 2 ^ 63 then k else LLONG_MIN)"
| "to_long_long x = LLONG_MIN"

text \<open>Signed 64-bit addition with the wrap-around of the machine written out.\<close>

definition wrap64 :: "int \<Rightarrow> int" where
  "wrap64 x = (x + 2 ^ 63) mod 2 ^ 64 - 2 ^ 63"

subsection \<open>std::to_string(double)\<close>

text \<open>
  \<^verbatim>\<open>std::to_string(double)\<close> is \<^verbatim>\<open>sprintf("%f")\<close> (C++11 to C++23): the value rounded to
  six decimals, at least one digit before the point. A NaN can only come from an
  invalid operation (such as 0/0) and is passed on by the later operations; on x86-64 it
  has its sign bit set, and \<^verbatim>\<open>printf\<close> writes it as \<^verbatim>\<open>-nan\<close>.
\<close>

definition digit_char :: "int \<Rightarrow> char" where
  "digit_char d = char_of (48 + d)"

function dec :: "int \<Rightarrow> string" where
  "dec n = (if n < 10 then [digit_char n] else dec (n div 10) @ [digit_char (n mod 10)])"
  by pat_completeness auto
termination
  by (relation "measure nat") auto

declare dec.simps [simp del]

definition pad6 :: "string \<Rightarrow> string" where
  "pad6 s = replicate (6 - length s) CHR ''0'' @ s"

text \<open>The digits of \<open>k\<close> millionths, for \<open>k\<close> that is not negative.\<close>

definition fixed6 :: "int \<Rightarrow> string" where
  "fixed6 k = dec (k div 1000000) @ ''.'' @ pad6 (dec (k mod 1000000))"

fun to_string :: "double \<Rightarrow> string" where
  "to_string (Finite s m) =
     (if s then ''-'' else []) @ fixed6 (round_half_even (m * 1000000))"
| "to_string (Infinity s) = (if s then ''-inf'' else ''inf'')"
| "to_string NaN = ''-nan''"

text \<open>
  \<^verbatim>\<open>s.substr(0, s.find_last_not_of('0') + 1)\<close>: everything up to and including the last
  character that is not \<^verbatim>\<open>'0'\<close> (the empty string when there is none).
\<close>

definition strip_zeros :: "string \<Rightarrow> string" where
  "strip_zeros s = rev (dropWhile (\<lambda>c. c = CHR ''0'') (rev s))"

section \<open>Core types\<close>

datatype ValueType = V_NULL | V_NUM | V_STR | V_BOOL | V_LIST | V_OBJ | V_FUNC | V_NATIVE

text \<open>
  The closed set of AST nodes. A \<^verbatim>\<open>shared_ptr<ASTNode>\<close> may be null (the parser returns
  \<^verbatim>\<open>nullptr\<close> for an unsupported primary, and \<^verbatim>\<open>IfNode::elseBranch\<close> and
  \<^verbatim>\<open>VarDeclNode::init\<close> are tested against null): \<open>NullNode\<close> is that null pointer.
  \<^verbatim>\<open>ObjectNode::props\<close> is a \<^verbatim>\<open>std::map\<close>; the list holds its entries in iteration
  (ascending key) order.
\<close>

datatype ASTNode =
    NullNode
  | NumberNode double
  | StringNode string
  | IdentifierNode string
  | ArrayNode "ASTNode list"
  | ObjectNode "(string \<times> ASTNode) list"
  | BinaryOpNode string ASTNode ASTNode
  | BlockNode "ASTNode list"
  | VarDeclNode string ASTNode
  | IfNode ASTNode ASTNode ASTNode
  | WhileNode ASTNode ASTNode
  | FunctionDeclNode string "string list" ASTNode
  | CallNode string "ASTNode list"

text \<open>
  The two host callables that \<^verbatim>\<open>main\<close> installs; \<open>NoFn\<close> is the empty
  \<^verbatim>\<open>std::function\<close> of a default-constructed Value.
\<close>

datatype NativeFn = NoFn | PrintFn | TimeoutFn

text \<open>
  \<^verbatim>\<open>struct Value\<close> carries every payload field at once, whatever its tag; the operators
  read \<^verbatim>\<open>numVal\<close> and \<^verbatim>\<open>strVal\<close> without looking at the tag, so all fields are kept.
  Values are never mutated after construction, so a \<^verbatim>\<open>shared_ptr<Value>\<close> is the value
  itself. \<open>closure\<close> is a reference to a frame of the environment store.
\<close>

datatype Value = Value
  (type: ValueType)
  (numVal: double)
  (strVal: string)
  (boolVal: bool)
  (listVal: "Value list")
  (objVal: "(string \<times> Value) list")
  (params: "string list")
  (body: ASTNode)
  (closure: "nat option")
  (nativeFn: NativeFn)

text \<open>\<^verbatim>\<open>make_shared<Value>()\<close>: the default member initialisers.\<close>

definition make_Value :: Value where
  "make_Value = Value V_NULL dzero [] False [] [] [] NullNode None NoFn"

fun set_type :: "ValueType \<Rightarrow> Value \<Rightarrow> Value" where
  "set_type t (Value _ n s b l ob p bd c nf) = Value t n s b l ob p bd c nf"

fun set_numVal :: "double \<Rightarrow> Value \<Rightarrow> Value" where
  "set_numVal n (Value t _ s b l ob p bd c nf) = Value t n s b l ob p bd c nf"

fun set_strVal :: "string \<Rightarrow> Value \<Rightarrow> Value" where
  "set_strVal s (Value t n _ b l ob p bd c nf) = Value t n s b l ob p bd c nf"

fun set_boolVal :: "bool \<Rightarrow> Value \<Rightarrow> Value" where
  "set_boolVal b (Value t n s _ l ob p bd c nf) = Value t n s b l ob p bd c nf"

fun set_listVal :: "Value list \<Rightarrow> Value \<Rightarrow> Value" where
  "set_listVal l (Value t n s b _ ob p bd c nf) = Value t n s b l ob p bd c nf"

fun set_objVal :: "(string \<times> Value) list \<Rightarrow> Value \<Rightarrow> Value" where
  "set_objVal ob (Value t n s b l _ p bd c nf) = Value t n s b l ob p bd c nf"

fun set_func :: "string list \<Rightarrow> ASTNode \<Rightarrow> nat option \<Rightarrow> Value \<Rightarrow> Value" where
  "set_func p bd c (Value t n s b l ob _ _ _ nf) = Value t n s b l ob p bd c nf"

fun set_nativeFn :: "NativeFn \<Rightarrow> Value \<Rightarrow> Value" where
  "set_nativeFn nf (Value t n s b l ob p bd c _) = Value t n s b l ob p bd c nf"

fun toString :: "Value \<Rightarrow> string" where
  "toString v =
     (if type v = V_NUM then strip_zeros (to_string (numVal v))
      else if type v = V_STR then strVal v
      else if type v = V_BOOL then (if boolVal v then ''true'' else ''false'')
      else if type v = V_NULL then ''null''
      else if type v = V_LIST then ''[Array]''
      else if type v = V_OBJ then ''[Object]''
      else if type v = V_FUNC \<or> type v = V_NATIVE then ''[Function]''
      else [])"

section \<open>The environment (scope)\<close>

text \<open>
  Frames are shared and mutable (children, closures and pending tasks hold references to
  them), so they live in a store: the list \<open>envs\<close> of the state, a reference being an
  index. A frame is appended by its constructor and never freed. Its parent is fixed by
  the constructor to a frame that exists already, hence to a smaller index; a reference
  that breaks this (none is ever built by \<open>newEnv\<close>) is an invalid pointer.
\<close>

record Environment =
  vars :: "string \<rightharpoonup> Value"
  parent :: "nat option"

text \<open>
  How a call ends: it returns, or throws a \<^verbatim>\<open>std::exception\<close> (the text is
  \<^verbatim>\<open>what()\<close>), or uses an invalid pointer or iterator (undefined behaviour in C++;
  the process does not go on).
\<close>

datatype 'a outcome = Return 'a | Throw string | Crash

definition define_env :: "Environment list \<Rightarrow> nat \<Rightarrow> string \<Rightarrow> Value \<Rightarrow> Environment list" where
  "define_env h e name v = h[e := (h ! e)\<lparr>vars := (vars (h ! e))(name \<mapsto> v)\<rparr>]"

function lookup :: "Environment list \<Rightarrow> nat \<Rightarrow> string \<Rightarrow> Value outcome" where
  "lookup h e name =
     (if e < length h then
        (case vars (h ! e) name of
           Some v \<Rightarrow> Return v
         | None \<Rightarrow>
             (case parent (h ! e) of
                Some p \<Rightarrow> if p < e then lookup h p name else Crash
              | None \<Rightarrow> Throw (''Undefined variable: '' @ name)))
      else Crash)"
  by pat_completeness auto
termination
  by (relation "measure (\<lambda>(h, e, name). e)") auto

function assign :: "Environment list \<Rightarrow> nat \<Rightarrow> string \<Rightarrow> Value \<Rightarrow> unit outcome \<times> Environment list" where
  "assign h e name v =
     (if e < length h then
        (case vars (h ! e) name of
           Some old \<Rightarrow> (Return (), define_env h e name v)
         | None \<Rightarrow>
             (case parent (h ! e) of
                Some p \<Rightarrow> if p < e then assign h p name v else (Crash, h)
              | None \<Rightarrow> (Throw (''Cannot assign to undefined variable: '' @ name), h)))
      else (Crash, h))"
  by pat_completeness auto
termination
  by (relation "measure (\<lambda>(h, e, name, v). e)") auto

declare lookup.simps [simp del] assign.simps [simp del]

text \<open>The frames a lookup from \<open>e\<close> visits, innermost first.\<close>

function chain :: "Environment list \<Rightarrow> nat \<Rightarrow> nat list" where
  "chain h e =
     (case parent (h ! e) of
        Some p \<Rightarrow> if p < e then e # chain h p else [e]
      | None \<Rightarrow> [e])"
  by pat_completeness auto
termination
  by (relation "measure (\<lambda>(h, e). e)") auto

declare chain.simps [simp del]

text \<open>A store is well formed when every parent reference points to an older frame.\<close>

definition wf_envs :: "Environment list \<Rightarrow> bool" where
  "wf_envs h = (\<forall>e < length h. case parent (h ! e) of Some p \<Rightarrow> p < e | None \<Rightarrow> True)"

definition binds :: "Environment list \<Rightarrow> string \<Rightarrow> nat \<Rightarrow> bool" where
  "binds h name i = (vars (h ! i) name \<noteq> None)"

section \<open>The machine state\<close>

text \<open>
  A pending Task holds its due time and the Function value whose body its callback
  evaluates. \<^verbatim>\<open>executeTime\<close> is a \<^verbatim>\<open>long long\<close>.
\<close>

record Task =
  executeTime :: int
  callback :: Value

text \<open>
  Everything the evaluator can change: the store of frames, the text written to
  \<^verbatim>\<open>cout\<close>, the global \<^verbatim>\<open>taskQueue\<close> vector with its capacity (a \<^verbatim>\<open>push_back\<close> at
  full capacity reallocates and invalidates every iterator), and the wall clock: \<open>clock\<close>
  gives the successive readings of \<^verbatim>\<open>system_clock\<close> in milliseconds, \<open>reads\<close> counts the
  readings taken so far.
\<close>

record state =
  envs :: "Environment list"
  out :: string
  taskQueue :: "Task list"
  capacity :: nat
  clock :: "nat \<Rightarrow> int"
  reads :: nat

type_synonym 'a result = "('a outcome \<times> state) option"

text \<open>
  Sequencing: the second computation runs only when the first returned; an exception or
  a crash passes through with the state it left, and \<open>None\<close> (no result within the
  recursion depth allowed) stays \<open>None\<close>.
\<close>

fun andThen :: "'a result \<Rightarrow> ('a \<Rightarrow> state \<Rightarrow> 'b result) \<Rightarrow> 'b result" where
  "andThen None f = None"
| "andThen (Some (Return a, st)) f = f a st"
| "andThen (Some (Throw e, st)) f = Some (Throw e, st)"
| "andThen (Some (Crash, st)) f = Some (Crash, st)"

definition endl :: string where
  "endl = [CHR 0x0A]"

definition cout :: "string \<Rightarrow> state \<Rightarrow> state" where
  "cout s st = st\<lparr>out := out st @ s\<rparr>"

definition defineVar :: "nat \<Rightarrow> string \<Rightarrow> Value \<Rightarrow> state \<Rightarrow> state" where
  "defineVar e name v st = st\<lparr>envs := define_env (envs st) e name v\<rparr>"

text \<open>\<^verbatim>\<open>make_shared<Environment>(p)\<close>: a fresh empty frame; its reference is returned.\<close>

definition newEnv :: "nat option \<Rightarrow> state \<Rightarrow> nat \<times> state" where
  "newEnv p st = (length (envs st), st\<lparr>envs := envs st @ [\<lparr>vars = Map.empty, parent = p\<rparr>]\<rparr>)"

definition getCurrentTime :: "state \<Rightarrow> int \<times> state" where
  "getCurrentTime st = (clock st (reads st), st\<lparr>reads := reads st + 1\<rparr>)"

text \<open>\<^verbatim>\<open>taskQueue.push_back(t)\<close>; a full vector doubles its capacity (from 0 to 1).\<close>

definition push_back :: "Task \<Rightarrow> state \<Rightarrow> state" where
  "push_back t st =
     st\<lparr>taskQueue := taskQueue st @ [t],
        capacity := (if length (taskQueue st) = capacity st
                     then max 1 (2 * capacity st) else capacity st)\<rparr>"

definition erase :: "nat \<Rightarrow> 'a list \<Rightarrow> 'a list" where
  "erase i xs = take i xs @ drop (Suc i) xs"

section \<open>Native functions\<close>

definition printFn :: "Value list \<Rightarrow> state \<Rightarrow> Value result" where
  "printFn args st =
     Some (Return make_Value, cout (concat (map (\<lambda>a. toString a @ '' '') args) @ endl) st)"

definition timeoutFn :: "Value list \<Rightarrow> state \<Rightarrow> Value result" where
  "timeoutFn args st =
     (if length args < 2 \<or> type (args ! 0) \<noteq> V_FUNC then Some (Return make_Value, st)
      else
        let delay = to_long_long (numVal (args ! 1));
            (now, st1) = getCurrentTime st;
            t = \<lparr>executeTime = wrap64 (now + delay), callback = args ! 0\<rparr>
        in Some (Return make_Value, push_back t st1))"

text \<open>Calling a \<^verbatim>\<open>std::function\<close>; an empty one throws \<^verbatim>\<open>std::bad_function_call\<close>.\<close>

fun callNative :: "NativeFn \<Rightarrow> Value list \<Rightarrow> state \<Rightarrow> Value result" where
  "callNative PrintFn args st = printFn args st"
| "callNative TimeoutFn args st = timeoutFn args st"
| "callNative NoFn args st = Some (Throw ''bad_function_call'', st)"

section \<open>The evaluator\<close>

text \<open>The body of \<^verbatim>\<open>BinaryOpNode::eval\<close> once both operands are evaluated.\<close>

definition binop :: "string \<Rightarrow> Value \<Rightarrow> Value \<Rightarrow> Value" where
  "binop op l r =
     (let res = make_Value in
      if op = ''+'' then
        (if type l = V_STR \<or> type r = V_STR
         then set_strVal (toString l @ toString r) (set_type V_STR res)
         else set_numVal (dadd (numVal l) (numVal r)) (set_type V_NUM res))
      else if op = ''-'' then set_numVal (dsub (numVal l) (numVal r)) (set_type V_NUM res)
      else if op = ''*'' then set_numVal (dmul (numVal l) (numVal r)) (set_type V_NUM res)
      else if op = ''/'' then set_numVal (ddiv (numVal l) (numVal r)) (set_type V_NUM res)
      else if op = ''>'' then set_boolVal (dgreater (numVal l) (numVal r)) (set_type V_BOOL res)
      else if op = ''<'' then set_boolVal (dless (numVal l) (numVal r)) (set_type V_BOOL res)
      else if op = ''=='' then
        set_type V_BOOL
          (if type l = V_NUM then set_boolVal (deq (numVal l) (numVal r)) res
           else if type l = V_STR then set_boolVal (strVal l = strVal r) res
           else res)
      else res)"

text \<open>The local \<^verbatim>\<open>truthy\<close> of \<^verbatim>\<open>IfNode::eval\<close>.\<close>

definition truthy :: "Value \<Rightarrow> bool" where
  "truthy c =
     (if type c = V_BOOL then boolVal c
      else if type c = V_NUM then \<not> deq (numVal c) dzero
      else False)"

text \<open>The test on which the loop of \<^verbatim>\<open>WhileNode::eval\<close> breaks.\<close>

definition while_breaks :: "Value \<Rightarrow> bool" where
  "while_breaks c =
     ((type c = V_BOOL \<and> \<not> boolVal c) \<or> (type c = V_NUM \<and> deq (numVal c) dzero))"

text \<open>The parameter loop of \<^verbatim>\<open>CallNode::eval\<close>: parameter i is defined when i < argVals.size().\<close>

fun bindParams :: "nat \<Rightarrow> string list \<Rightarrow> Value list \<Rightarrow> state \<Rightarrow> state" where
  "bindParams scope [] argVals st = st"
| "bindParams scope (p # ps) [] st = bindParams scope ps [] st"
| "bindParams scope (p # ps) (a # as) st = bindParams scope ps as (defineVar scope p a st)"

text \<open>
  \<^verbatim>\<open>ASTNode::eval\<close>. The first argument bounds the depth of nested calls of \<^verbatim>\<open>eval\<close>
  (a loop iteration counts as one level); \<open>None\<close> means that the bound was reached.
  Calling \<^verbatim>\<open>eval\<close> through a null pointer is a crash.
\<close>

function (sequential) eval :: "nat \<Rightarrow> ASTNode \<Rightarrow> nat \<Rightarrow> state \<Rightarrow> Value result"
  and evalElements :: "nat \<Rightarrow> ASTNode list \<Rightarrow> nat \<Rightarrow> Value list \<Rightarrow> state \<Rightarrow> Value list result"
  and evalProps :: "nat \<Rightarrow> (string \<times> ASTNode) list \<Rightarrow> nat \<Rightarrow> (string \<times> Value) list \<Rightarrow> state
                     \<Rightarrow> (string \<times> Value) list result"
  and evalStatements :: "nat \<Rightarrow> ASTNode list \<Rightarrow> nat \<Rightarrow> Value \<Rightarrow> state \<Rightarrow> Value result"
where
  "eval 0 node env st = None"
| "eval (Suc n) NullNode env st = Some (Crash, st)"
| "eval (Suc n) (NumberNode val) env st =
     Some (Return (set_numVal val (set_type V_NUM make_Value)), st)"
| "eval (Suc n) (StringNode val) env st =
     Some (Return (set_strVal val (set_type V_STR make_Value)), st)"
| "eval (Suc n) (IdentifierNode name) env st = Some (lookup (envs st) env name, st)"
| "eval (Suc n) (ArrayNode elements) env st =
     andThen (evalElements n elements env [] st)
       (\<lambda>vs st1. Some (Return (set_listVal vs (set_type V_LIST make_Value)), st1))"
| "eval (Suc n) (ObjectNode props) env st =
     andThen (evalProps n props env [] st)
       (\<lambda>kvs st1. Some (Return (set_objVal kvs (set_type V_OBJ make_Value)), st1))"
| "eval (Suc n) (BinaryOpNode op left right) env st =
     andThen (eval n left env st) (\<lambda>l st1.
     andThen (eval n right env st1) (\<lambda>r st2.
       Some (Return (binop op l r), st2)))"
| "eval (Suc n) (BlockNode statements) env st = evalStatements n statements env make_Value st"
| "eval (Suc n) (VarDeclNode name init) env st =
     andThen (if init \<noteq> NullNode then eval n init env st else Some (Return make_Value, st))
       (\<lambda>v st1. Some (Return v, defineVar env name v st1))"
| "eval (Suc n) (IfNode cond thenBranch elseBranch) env st =
     andThen (eval n cond env st) (\<lambda>c st1.
       if truthy c then eval n thenBranch env st1
       else if elseBranch \<noteq> NullNode then eval n elseBranch env st1
       else Some (Return make_Value, st1))"
| "eval (Suc n) (WhileNode cond blk) env st =
     andThen (eval n cond env st) (\<lambda>c st1.
       if while_breaks c then Some (Return make_Value, st1)
       else andThen (eval n blk env st1) (\<lambda>b st2. eval n (WhileNode cond blk) env st2))"
| "eval (Suc n) (FunctionDeclNode name ps blk) env st =
     (let func = set_func ps blk (Some env) (set_type V_FUNC make_Value)
      in Some (Return func, defineVar env name func st))"
| "eval (Suc n) (CallNode callee args) env st =
     andThen (Some (lookup (envs st) env callee, st)) (\<lambda>func st0.
     andThen (evalElements n args env [] st0) (\<lambda>argVals st1.
       if type func = V_NATIVE then callNative (nativeFn func) argVals st1
       else if type func = V_FUNC then
         (let (scope, st2) = newEnv (closure func) st1
          in eval n (body func) scope (bindParams scope (params func) argVals st2))
       else Some (Throw (''Not a function: '' @ callee), st1)))"
| "evalElements n [] env acc st = Some (Return acc, st)"
| "evalElements n (el # els) env acc st =
     andThen (eval n el env st) (\<lambda>v st1. evalElements n els env (acc @ [v]) st1)"
| "evalProps n [] env acc st = Some (Return acc, st)"
| "evalProps n ((key, valNode) # ps) env acc st =
     andThen (eval n valNode env st) (\<lambda>v st1. evalProps n ps env (AList.update key v acc) st1)"
| "evalStatements n [] env lastVal st = Some (Return lastVal, st)"
| "evalStatements n (stmt # stmts) env lastVal st =
     andThen (eval n stmt env st) (\<lambda>v st1. evalStatements n stmts env v st1)"
  by pat_completeness auto
termination
  by (relation "measures
        [case_sum (case_sum fst fst) (case_sum fst fst),
         case_sum (case_sum (\<lambda>x. 0) (\<lambda>(n, els, r). Suc (length els)))
                  (case_sum (\<lambda>(n, ps, r). Suc (length ps)) (\<lambda>(n, stmts, r). Suc (length stmts)))]")
     auto

section \<open>The event loop and the run command of main\<close>

text \<open>
  The callback of a Task: a fresh frame chained to the captured closure, in which the body
  of the function is evaluated; the value is dropped.
\<close>

definition runCallback :: "nat \<Rightarrow> Value \<Rightarrow> state \<Rightarrow> unit result" where
  "runCallback n cb st =
     (let (scope, st1) = newEnv (closure cb) st
      in andThen (eval n (body cb) scope st1) (\<lambda>v st2. Some (Return (), st2)))"

text \<open>
  One sweep: the \<^verbatim>\<open>for\<close> loop over \<^verbatim>\<open>taskQueue\<close>; \<open>i\<close> is the position of the iterator.
  A ready task is called and then erased. When the callback made the vector reallocate,
  the iterator handed to \<^verbatim>\<open>erase\<close> is invalid. The result is \<^verbatim>\<open>ranTask\<close>.
\<close>

fun sweep :: "nat \<Rightarrow> int \<Rightarrow> nat \<Rightarrow> bool \<Rightarrow> state \<Rightarrow> bool result" where
  "sweep 0 now i ranTask st = None"
| "sweep (Suc n) now i ranTask st =
     (if i < length (taskQueue st) then
        (let t = taskQueue st ! i in
         if executeTime t \<le> now then
           andThen (runCallback n (callback t) st) (\<lambda>u st1.
             if capacity st1 \<noteq> capacity st then Some (Crash, st1)
             else sweep n now i True (st1\<lparr>taskQueue := erase i (taskQueue st1)\<rparr>))
         else sweep n now (i + 1) ranTask st)
      else Some (Return ranTask, st))"

text \<open>
  The \<^verbatim>\<open>while (!taskQueue.empty())\<close> loop. The sleep between two sweeps changes nothing
  but the time, which the clock readings carry.
\<close>

fun eventLoop :: "nat \<Rightarrow> state \<Rightarrow> unit result" where
  "eventLoop 0 st = None"
| "eventLoop (Suc n) st =
     (if taskQueue st \<noteq> [] then
        (let (now, st1) = getCurrentTime st
         in andThen (sweep n now 0 False st1) (\<lambda>ranTask st2. eventLoop n st2))
      else Some (Return (), st))"

text \<open>The top-level statement loop: a null statement is skipped, frame 0 is the global frame.\<close>

fun runSync :: "nat \<Rightarrow> ASTNode list \<Rightarrow> state \<Rightarrow> unit result" where
  "runSync n [] st = Some (Return (), st)"
| "runSync n (stmt # stmts) st =
     andThen (if stmt \<noteq> NullNode then eval n stmt 0 st else Some (Return make_Value, st))
       (\<lambda>v st1. runSync n stmts st1)"

text \<open>
  What \<^verbatim>\<open>main\<close> does on the line \<^verbatim>\<open>run\<close>, from the parsed statements on: the
  \<^verbatim>\<open>try\<close> block (synchronous code, then the event loop when a task is pending), the
  handler that prints the message of a caught exception, and the line \<^verbatim>\<open>Ready.\<close>.
  It returns when the command loop of \<^verbatim>\<open>main\<close> goes on to its next line.
\<close>

definition tryBlock :: "nat \<Rightarrow> ASTNode list \<Rightarrow> state \<Rightarrow> unit result" where
  "tryBlock n stmts st =
     andThen (runSync n stmts st) (\<lambda>u st1.
       if taskQueue st1 \<noteq> []
       then eventLoop n (cout (''[Event Loop] Processing async tasks...'' @ endl) st1)
       else Some (Return (), st1))"

definition run :: "nat \<Rightarrow> ASTNode list \<Rightarrow> state \<Rightarrow> unit result" where
  "run n stmts st =
     (case tryBlock n stmts st of
        None \<Rightarrow> None
      | Some (Return u, st1) \<Rightarrow> Some (Return (), cout (endl @ ''Ready.'' @ endl) st1)
      | Some (Throw e, st1) \<Rightarrow>
          Some (Return (), cout (endl @ ''Ready.'' @ endl) (cout (''Runtime Error: '' @ e @ endl) st1))
      | Some (Crash, st1) \<Rightarrow> Some (Crash, st1))"

text \<open>The state in which \<^verbatim>\<open>main\<close> enters its command loop: the global frame with the two natives.\<close>

definition globalEnv :: Environment where
  "globalEnv =
     \<lparr>vars = [''print'' \<mapsto> set_nativeFn PrintFn (set_type V_NATIVE make_Value),
              ''setTimeout'' \<mapsto> set_nativeFn TimeoutFn (set_type V_NATIVE make_Value)],
      parent = None\<rparr>"

definition banner :: string where
  "banner = ''--- JS Engine V8-Mini (Async supported) ---'' @ endl
            @ ''Enter code. Type 'run' to execute.'' @ endl"

definition initial :: "(nat \<Rightarrow> int) \<Rightarrow> state" where
  "initial clk =
     \<lparr>envs = [globalEnv], out = banner, taskQueue = [], capacity = 0, clock = clk, reads = 0\<rparr>"

section \<open>The parser\<close>

text \<open>
  The classification functions of \<^verbatim>\<open><cctype>\<close> in the C locale, on the bytes of the source.
\<close>

definition isspace :: "char \<Rightarrow> bool" where
  "isspace c = (c \<in> set [CHR '' '', CHR 0x09, CHR 0x0A, CHR 0x0B, CHR 0x0C, CHR 0x0D])"

definition isdigit :: "char \<Rightarrow> bool" where
  "isdigit c = (let k = of_char c :: nat in 48 \<le> k \<and> k \<le> 57)"

definition isalpha :: "char \<Rightarrow> bool" where
  "isalpha c = (let k = of_char c :: nat in (65 \<le> k \<and> k \<le> 90) \<or> (97 \<le> k \<and> k \<le> 122))"

definition isalnum :: "char \<Rightarrow> bool" where
  "isalnum c = (isalpha c \<or> isdigit c)"

text \<open>
  The parser is the source text \<open>src\<close> and the position \<open>pos\<close>; every function below takes
  the position and returns the new one. \<^verbatim>\<open>peek()\<close> is the null character from the end of
  the text on; \<^verbatim>\<open>advance()\<close> moves one position on even there (its character is used only
  where \<^verbatim>\<open>peek()\<close> has just shown that the position is inside the text).
\<close>

definition peek :: "string \<Rightarrow> nat \<Rightarrow> char" where
  "peek src pos = (if length src \<le> pos then CHR 0x00 else src ! pos)"

function skipWhitespace :: "string \<Rightarrow> nat \<Rightarrow> nat" where
  "skipWhitespace src pos =
     (if pos < length src \<and> isspace (src ! pos) then skipWhitespace src (pos + 1) else pos)"
  by pat_completeness auto
termination
  by (relation "measure (\<lambda>(src, pos). length src - pos)") auto

text \<open>
  \<^verbatim>\<open>while (p(peek())) s += advance();\<close> for a class \<open>p\<close> of characters that does not hold
  the null character, so that the loop ends at the end of the text at the latest.
\<close>

function takeChars :: "(char \<Rightarrow> bool) \<Rightarrow> string \<Rightarrow> nat \<Rightarrow> string \<Rightarrow> string \<times> nat" where
  "takeChars p src pos s =
     (if pos < length src \<and> p (src ! pos) then takeChars p src (pos + 1) (s @ [src ! pos])
      else (s, pos))"
  by pat_completeness auto
termination
  by (relation "measure (\<lambda>(p, src, pos, s). length src - pos)") auto

text \<open>
  \<^verbatim>\<open>while (peek() != '"') s += advance();\<close> does not stop at the end of the text: without a
  closing quote it reads on beyond the string.
\<close>

function readString :: "string \<Rightarrow> nat \<Rightarrow> string \<Rightarrow> (string \<times> nat) outcome" where
  "readString src pos s =
     (if pos < length src then
        (if src ! pos \<noteq> CHR 0x22 then readString src (pos + 1) (s @ [src ! pos])
         else Return (s, pos))
      else Crash)"
  by pat_completeness auto
termination
  by (relation "measure (\<lambda>(src, pos, s). length src - pos)") auto

declare skipWhitespace.simps [simp del] takeChars.simps [simp del] readString.simps [simp del]

definition parseToken :: "string \<Rightarrow> nat \<Rightarrow> (string \<times> nat) outcome" where
  "parseToken src pos0 =
     (let pos = skipWhitespace src pos0 in
      if length src \<le> pos then Return ([], pos)
      else
        let c = peek src pos in
        if isalpha c then Return (takeChars isalnum src pos [])
        else if isdigit c then Return (takeChars (\<lambda>c. isdigit c \<or> c = CHR ''.'') src pos [])
        else if c = CHR 0x22 then
          (case readString src (pos + 1) [] of
             Return (s, p) \<Rightarrow> Return ([CHR 0x22] @ s @ [CHR 0x22], p + 1)
           | Throw e \<Rightarrow> Throw e
           | Crash \<Rightarrow> Crash)
        else if (c = CHR ''='' \<or> c = CHR ''!'' \<or> c = CHR ''<'' \<or> c = CHR ''>'')
                \<and> peek src (pos + 1) = CHR ''=''
        then Return ([c, CHR ''=''], pos + 2)
        else Return ([c], pos + 1))"

text \<open>
  \<^verbatim>\<open>std::stod\<close> on a token of digits and points: the longest prefix of the form digits,
  then optionally a point and digits, rounded to a double. It throws
  \<^verbatim>\<open>std::out_of_range\<close> (whose text is \<^verbatim>\<open>stod\<close>) when \<^verbatim>\<open>strtod\<close> reports a range error:
  when the value overflows, or when the result lies below the normal range and is not
  exact.
\<close>

definition digits_val :: "string \<Rightarrow> int" where
  "digits_val ds = foldl (\<lambda>a c. 10 * a + (of_char c - 48)) 0 ds"

definition stod :: "string \<Rightarrow> double outcome" where
  "stod tok =
     (let ip = takeWhile isdigit tok;
          rest = drop (length ip) tok;
          fp = (if rest \<noteq> [] \<and> hd rest = CHR ''.'' then takeWhile isdigit (tl rest) else []);
          q = of_int (digits_val (ip @ fp)) / 10 ^ length fp
      in case round_double False q of
           Finite s m \<Rightarrow> if m \<noteq> q \<and> m < 2 powi (- 1022) then Throw ''stod'' else Return (Finite s m)
         | Infinity s \<Rightarrow> Throw ''stod''
         | NaN \<Rightarrow> Throw ''stod'')"

text \<open>
  The result of a parsing function: the value and the new position, or an exception, or
  a read beyond the text; \<open>None\<close> when the bound on the depth of calls was reached.
\<close>

type_synonym 'a parsed = "('a \<times> nat) outcome option"

fun pbind :: "'a parsed \<Rightarrow> ('a \<Rightarrow> nat \<Rightarrow> 'b parsed) \<Rightarrow> 'b parsed" where
  "pbind None f = None"
| "pbind (Some (Return (a, pos))) f = f a pos"
| "pbind (Some (Throw e)) f = Some (Throw e)"
| "pbind (Some Crash) f = Some Crash"

text \<open>
  The recursive descent over expressions. The first argument bounds the depth of calls;
  each loop is a function of its own that calls itself for the next iteration.
  \<open>listLoop\<close> is the loop over the elements of an array literal and over the arguments
  of a call, up to the closing character.
\<close>

function parseExpression :: "nat \<Rightarrow> string \<Rightarrow> nat \<Rightarrow> ASTNode parsed"
  and parseComparison :: "nat \<Rightarrow> string \<Rightarrow> nat \<Rightarrow> ASTNode parsed"
  and parseAdditive :: "nat \<Rightarrow> string \<Rightarrow> nat \<Rightarrow> ASTNode parsed"
  and additiveLoop :: "nat \<Rightarrow> string \<Rightarrow> ASTNode \<Rightarrow> nat \<Rightarrow> ASTNode parsed"
  and parseMultiplicative :: "nat \<Rightarrow> string \<Rightarrow> nat \<Rightarrow> ASTNode parsed"
  and multiplicativeLoop :: "nat \<Rightarrow> string \<Rightarrow> ASTNode \<Rightarrow> nat \<Rightarrow> ASTNode parsed"
  and parsePrimary :: "nat \<Rightarrow> string \<Rightarrow> nat \<Rightarrow> ASTNode parsed"
  and listLoop :: "nat \<Rightarrow> string \<Rightarrow> char \<Rightarrow> ASTNode list \<Rightarrow> nat \<Rightarrow> ASTNode list parsed"
where
  "parseExpression 0 src pos = None"
| "parseExpression (Suc n) src pos = parseComparison n src pos"
| "parseComparison 0 src pos = None"
| "parseComparison (Suc n) src pos =
     pbind (parseAdditive n src pos) (\<lambda>left pos1.
       let pos2 = skipWhitespace src pos1; c = peek src pos2 in
       if c = CHR ''>'' \<or> c = CHR ''<'' \<or> c = CHR ''='' then
         pbind (Some (parseToken src pos2)) (\<lambda>op pos3.
         pbind (parseAdditive n src pos3) (\<lambda>right pos4.
           Some (Return (BinaryOpNode op left right, pos4))))
       else Some (Return (left, pos2)))"
| "parseAdditive 0 src pos = None"
| "parseAdditive (Suc n) src pos =
     pbind (parseMultiplicative n src pos) (\<lambda>left pos1. additiveLoop n src left pos1)"
| "additiveLoop 0 src left pos = None"
| "additiveLoop (Suc n) src left pos =
     (let pos1 = skipWhitespace src pos; c = peek src pos1 in
      if c \<noteq> CHR ''+'' \<and> c \<noteq> CHR ''-'' then Some (Return (left, pos1))
      else
        pbind (Some (parseToken src pos1)) (\<lambda>op pos2.
        pbind (parseMultiplicative n src pos2) (\<lambda>right pos3.
          additiveLoop n src (BinaryOpNode op left right) pos3)))"
| "parseMultiplicative 0 src pos = None"
| "parseMultiplicative (Suc n) src pos =
     pbind (parsePrimary n src pos) (\<lambda>left pos1. multiplicativeLoop n src left pos1)"
| "multiplicativeLoop 0 src left pos = None"
| "multiplicativeLoop (Suc n) src left pos =
     (let pos1 = skipWhitespace src pos; c = peek src pos1 in
      if c \<noteq> CHR ''*'' \<and> c \<noteq> CHR ''/'' then Some (Return (left, pos1))
      else
        pbind (Some (parseToken src pos1)) (\<lambda>op pos2.
        pbind (parsePrimary n src pos2) (\<lambda>right pos3.
          multiplicativeLoop n src (BinaryOpNode op left right) pos3)))"
| "parsePrimary 0 src pos = None"
| "parsePrimary (Suc n) src pos0 =
     (let pos = skipWhitespace src pos0; c = peek src pos in
      if isdigit c then
        pbind (Some (parseToken src pos)) (\<lambda>tok pos1.
          case stod tok of
            Return d \<Rightarrow> Some (Return (NumberNode d, pos1))
          | Throw e \<Rightarrow> Some (Throw e)
          | Crash \<Rightarrow> Some Crash)
      else if c = CHR 0x22 then
        pbind (Some (parseToken src pos)) (\<lambda>s pos1.
          Some (Return (StringNode (take (length s - 2) (drop 1 s)), pos1)))
      else if c = CHR ''['' then
        pbind (listLoop n src CHR '']'' [] (pos + 1)) (\<lambda>elements pos1.
          Some (Return (ArrayNode elements, pos1 + 1)))
      else if isalpha c then
        pbind (Some (parseToken src pos)) (\<lambda>name pos1.
          let pos2 = skipWhitespace src pos1 in
          if peek src pos2 = CHR ''('' then
            pbind (listLoop n src CHR '')'' [] (pos2 + 1)) (\<lambda>args pos3.
              Some (Return (CallNode name args, pos3 + 1)))
          else Some (Return (IdentifierNode name, pos2)))
      else Some (Return (NullNode, pos)))"
| "listLoop 0 src close acc pos = None"
| "listLoop (Suc n) src close acc pos =
     (if peek src pos \<noteq> close then
        pbind (parseExpression n src pos) (\<lambda>e pos1.
          let pos2 = skipWhitespace src pos1;
              pos3 = (if peek src pos2 = CHR '','' then pos2 + 1 else pos2)
          in listLoop n src close (acc @ [e]) pos3)
      else Some (Return (acc, pos)))"
  by pat_completeness auto
termination
  by (relation "measure (case_sum (case_sum (case_sum fst fst) (case_sum fst fst))
                                  (case_sum (case_sum fst fst) (case_sum fst fst)))")
     auto

text \<open>The parameter loop of a function declaration.\<close>

fun paramsLoop :: "nat \<Rightarrow> string \<Rightarrow> string list \<Rightarrow> nat \<Rightarrow> string list parsed" where
  "paramsLoop 0 src ps pos = None"
| "paramsLoop (Suc n) src ps pos =
     (if peek src pos \<noteq> CHR '')'' then
        (let (p, pos1) = takeChars isalnum src (skipWhitespace src pos) [];
             pos2 = skipWhitespace src pos1;
             pos3 = (if peek src pos2 = CHR '','' then pos2 + 1 else pos2)
         in paramsLoop n src (ps @ [p]) pos3)
      else Some (Return (ps, pos)))"

text \<open>
  Statements and blocks. \<open>blockLoop\<close> is the loop of \<^verbatim>\<open>parseBlock\<close>; only the \<^verbatim>\<open>var\<close>
  statement consumes a semicolon after itself.
\<close>

function parseBlock :: "nat \<Rightarrow> string \<Rightarrow> nat \<Rightarrow> ASTNode parsed"
  and blockLoop :: "nat \<Rightarrow> string \<Rightarrow> ASTNode list \<Rightarrow> nat \<Rightarrow> ASTNode list parsed"
  and parseStatement :: "nat \<Rightarrow> string \<Rightarrow> nat \<Rightarrow> ASTNode parsed"
where
  "parseBlock 0 src pos = None"
| "parseBlock (Suc n) src pos =
     pbind (blockLoop n src [] (pos + 1)) (\<lambda>statements pos1.
       Some (Return (BlockNode statements, pos1 + 1)))"
| "blockLoop 0 src statements pos = None"
| "blockLoop (Suc n) src statements pos =
     (if peek src pos \<noteq> CHR ''}'' \<and> pos < length src then
        pbind (parseStatement n src pos) (\<lambda>stmt pos1.
          blockLoop n src (statements @ [stmt]) (skipWhitespace src pos1))
      else Some (Return (statements, pos)))"
| "parseStatement 0 src pos = None"
| "parseStatement (Suc n) src pos0 =
     (let checkpoint = skipWhitespace src pos0;
          (tokenStr, pos) = takeChars isalpha src checkpoint []
      in
      if tokenStr = ''var'' then
        pbind (Some (parseToken src (skipWhitespace src pos))) (\<lambda>name pos1.
        pbind (parseExpression n src (skipWhitespace src pos1 + 1)) (\<lambda>v pos2.
          let pos3 = skipWhitespace src pos2;
              pos4 = (if peek src pos3 = CHR '';'' then pos3 + 1 else pos3)
          in Some (Return (VarDeclNode name v, pos4))))
      else if tokenStr = ''if'' then
        pbind (parseExpression n src (skipWhitespace src pos + 1)) (\<lambda>cond pos1.
        pbind (parseBlock n src (skipWhitespace src (pos1 + 1))) (\<lambda>thenB pos2.
          let pos3 = skipWhitespace src pos2;
              (nxt, p2) = takeChars isalpha src pos3 []
          in if nxt = ''else'' then
               pbind (parseBlock n src (skipWhitespace src p2)) (\<lambda>elseB pos4.
                 Some (Return (IfNode cond thenB elseB, pos4)))
             else Some (Return (IfNode cond thenB NullNode, pos3))))
      else if tokenStr = ''while'' then
        pbind (parseExpression n src (skipWhitespace src pos + 1)) (\<lambda>cond pos1.
        pbind (parseBlock n src (skipWhitespace src (pos1 + 1))) (\<lambda>blk pos2.
          Some (Return (WhileNode cond blk, pos2))))
      else if tokenStr = ''function'' then
        pbind (Some (parseToken src (skipWhitespace src pos))) (\<lambda>name pos1.
        pbind (paramsLoop n src [] (pos1 + 1)) (\<lambda>ps pos2.
        pbind (parseBlock n src (skipWhitespace src (pos2 + 1))) (\<lambda>blk pos3.
          Some (Return (FunctionDeclNode name ps blk, pos3)))))
      else parseExpression n src checkpoint)"
  by pat_completeness auto
termination
  by (relation "measure (case_sum fst (case_sum fst fst))") auto

text \<open>\<^verbatim>\<open>Parser::parse\<close>: the loop over the top-level statements.\<close>

fun parseLoop :: "nat \<Rightarrow> string \<Rightarrow> ASTNode list \<Rightarrow> nat \<Rightarrow> ASTNode list parsed" where
  "parseLoop 0 src stmts pos = None"
| "parseLoop (Suc n) src stmts pos =
     (if pos < length src then
        (let pos1 = skipWhitespace src pos in
         if length src \<le> pos1 then Some (Return (stmts, pos1))
         else
           pbind (parseStatement n src pos1) (\<lambda>stmt pos2.
             let pos3 = skipWhitespace src pos2;
                 pos4 = (if peek src pos3 = CHR '';'' then pos3 + 1 else pos3)
             in parseLoop n src (stmts @ [stmt]) pos4))
      else Some (Return (stmts, pos)))"

definition parse :: "nat \<Rightarrow> string \<Rightarrow> ASTNode list outcome option" where
  "parse n code =
     (case parseLoop n code [] 0 of
        None \<Rightarrow> None
      | Some (Return (stmts, pos)) \<Rightarrow> Some (Return stmts)
      | Some (Throw e) \<Rightarrow> Some (Throw e)
      | Some Crash \<Rightarrow> Some Crash)"

text \<open>
  The whole of the command \<^verbatim>\<open>run\<close> on the accumulated source text: the parser runs inside
  the same \<^verbatim>\<open>try\<close> block, so an exception of the parser is reported like one of the
  evaluator.
\<close>

definition runCode :: "nat \<Rightarrow> string \<Rightarrow> state \<Rightarrow> unit result" where
  "runCode n code st =
     (case parse n code of
        None \<Rightarrow> None
      | Some (Return stmts) \<Rightarrow> run n stmts st
      | Some (Throw e) \<Rightarrow>
          Some (Return (), cout (endl @ ''Ready.'' @ endl) (cout (''Runtime Error: '' @ e @ endl) st))
      | Some Crash \<Rightarrow> Some (Crash, st))"

section \<open>Values and inputs used in the statements\<close>

definition Null :: Value where
  "Null = make_Value"

definition Number :: "double \<Rightarrow> Value" where
  "Number x = set_numVal x (set_type V_NUM make_Value)"

definition Str :: "string \<Rightarrow> Value" where
  "Str s = set_strVal s (set_type V_STR make_Value)"

definition Boolean :: "bool \<Rightarrow> Value" where
  "Boolean b = set_boolVal b (set_type V_BOOL make_Value)"

text \<open>A user Function value: parameters, body and the frame it was declared in.\<close>

definition Function :: "string list \<Rightarrow> ASTNode \<Rightarrow> nat \<Rightarrow> Value" where
  "Function ps blk env = set_func ps blk (Some env) (set_type V_FUNC make_Value)"

text \<open>A clock that advances by one millisecond at each reading, and the state at start-up.\<close>

definition clock0 :: "nat \<Rightarrow> int" where
  "clock0 i = 1000 + int i"

definition state0 :: state where
  "state0 = initial clock0"

text \<open>What a computation printed, and how many tasks it left pending.\<close>

definition printed :: "'a result \<Rightarrow> string" where
  "printed r = (case r of Some (x, st) \<Rightarrow> out st | None \<Rightarrow> [])"

definition pending :: "'a result \<Rightarrow> nat" where
  "pending r = (case r of Some (x, st) \<Rightarrow> length (taskQueue st) | None \<Rightarrow> 0)"

definition outcome_of :: "'a result \<Rightarrow> 'a outcome option" where
  "outcome_of r = map_option fst r"

text \<open>The state \<open>st\<close> with the bindings \<open>bs\<close> added to its global frame, in order.\<close>

definition with_globals :: "(string \<times> Value) list \<Rightarrow> state \<Rightarrow> state" where
  "with_globals bs st = foldl (\<lambda>s (name, v). defineVar 0 name v s) st bs"

text \<open>The state \<open>st\<close> with one more frame, whose parent is the global frame.\<close>

definition with_frame :: "(string \<times> Value) list \<Rightarrow> state \<Rightarrow> state" where
  "with_frame bs st = st\<lparr>envs := envs st @ [\<lparr>vars = map_of bs, parent = Some 0\<rparr>]\<rparr>"

text \<open>
  The frame a call builds, described from the values alone: the parameters bound
  positionally to the arguments (as far as both lists reach), the closure as parent.
\<close>

definition call_frame :: "Value \<Rightarrow> Value list \<Rightarrow> state \<Rightarrow> state" where
  "call_frame func argVals st =
     st\<lparr>envs := envs st @ [\<lparr>vars = Map.empty(params func [\<mapsto>] argVals), parent = closure func\<rparr>]\<rparr>"

text \<open>A store of two frames: the inner frame 1 has the outer frame 0 as its parent.\<close>

definition frames0 :: "Environment list" where
  "frames0 = [\<lparr>vars = [''x'' \<mapsto> Number (lit 1)], parent = None\<rparr>,
              \<lparr>vars = [''y'' \<mapsto> Number (lit 2)], parent = Some 0\<rparr>]"

subsection \<open>Inputs for the statements that yield Null\<close>

text \<open>
  \<^verbatim>\<open>while (i < 2) { var i = i + 1 }\<close> and \<^verbatim>\<open>if (x) { 1 }\<close>; the functions
  \<^verbatim>\<open>function f() { 7 while (i < 2) { var i = i + 1 } }\<close> and
  \<^verbatim>\<open>function g() { 7 if (x) { 1 } }\<close>; and the state in which \<open>i\<close> and \<open>x\<close> are 0
  and \<open>f\<close> and \<open>g\<close> are declared.
\<close>

definition loop_i :: ASTNode where
  "loop_i = WhileNode (BinaryOpNode ''<'' (IdentifierNode ''i'') (NumberNode (lit 2)))
              (BlockNode [VarDeclNode ''i''
                 (BinaryOpNode ''+'' (IdentifierNode ''i'') (NumberNode (lit 1)))])"

definition if_x :: ASTNode where
  "if_x = IfNode (IdentifierNode ''x'') (BlockNode [NumberNode (lit 1)]) NullNode"

definition fun_loop :: Value where
  "fun_loop = Function [] (BlockNode [NumberNode (lit 7), loop_i]) 0"

definition fun_if :: Value where
  "fun_if = Function [] (BlockNode [NumberNode (lit 7), if_x]) 0"

definition state_fg :: state where
  "state_fg = with_globals [(''i'', Number (lit 0)), (''x'', Number (lit 0)),
                            (''f'', fun_loop), (''g'', fun_if)] state0"

subsection \<open>Inputs for the condition of While\<close>

text \<open>
  \<^verbatim>\<open>var c = "go"; while (c) { print(c) var c = 0 }\<close>: the condition is a String on the
  first test and the Number 0 on the second.
\<close>

definition src_while_string :: string where
  "src_while_string = ''var c = \"go\"; while (c) { print(c) var c = 0 }''"

definition prog_while_string :: "ASTNode list" where
  "prog_while_string =
     [VarDeclNode ''c'' (StringNode ''go''),
      WhileNode (IdentifierNode ''c'')
        (BlockNode [CallNode ''print'' [IdentifierNode ''c''],
                    VarDeclNode ''c'' (NumberNode (lit 0))])]"

subsection \<open>Inputs for the propagation of errors\<close>

text \<open>
  \<^verbatim>\<open>var x = 1; function f() { x + y } setTimeout(f, 0); print(f() * 2); print("after");\<close>
  The fourth statement fails deep inside: \<open>y\<close> is undeclared where the body of \<open>f\<close>
  reads it. \<open>state_pre\<close> is the state after the first three statements, \<open>state_in\<close> the
  state in which the error is raised (the call of \<open>f\<close> has allocated its frame).
\<close>

definition body_bad :: ASTNode where
  "body_bad = BlockNode [BinaryOpNode ''+'' (IdentifierNode ''x'') (IdentifierNode ''y'')]"

definition fun_bad :: Value where
  "fun_bad = Function [] body_bad 0"

definition pre_nested :: "ASTNode list" where
  "pre_nested =
     [VarDeclNode ''x'' (NumberNode (lit 1)),
      FunctionDeclNode ''f'' [] body_bad,
      CallNode ''setTimeout'' [IdentifierNode ''f'', NumberNode (lit 0)]]"

definition stmt_nested :: ASTNode where
  "stmt_nested =
     CallNode ''print'' [BinaryOpNode ''*'' (CallNode ''f'' []) (NumberNode (lit 2))]"

definition prog_nested :: "ASTNode list" where
  "prog_nested = pre_nested @ stmt_nested # [CallNode ''print'' [StringNode ''after'']]"

definition state_pre :: state where
  "state_pre =
     (with_globals [(''x'', Number (lit 1)), (''f'', fun_bad)] state0)
       \<lparr>taskQueue := [\<lparr>executeTime = 1000, callback = fun_bad\<rparr>], capacity := 1, reads := 1\<rparr>"

definition state_in :: state where
  "state_in = with_frame [] state_pre"

text \<open>
  The report of that error, the state \<open>state_failed\<close> in which the run command leaves the
  engine, and the states of the next run command (with no statement): \<open>state_loop\<close> when
  the event loop has announced itself and read the clock, \<open>state_again\<close> when the pending
  task has called \<open>f\<close> again.
\<close>

definition report_y :: string where
  "report_y = ''Runtime Error: Undefined variable: y'' @ endl @ endl @ ''Ready.'' @ endl"

definition state_failed :: state where
  "state_failed = state_in\<lparr>out := banner @ report_y\<rparr>"

definition state_loop :: state where
  "state_loop =
     state_failed\<lparr>out := banner @ report_y @ ''[Event Loop] Processing async tasks...'' @ endl,
                  reads := 2\<rparr>"

definition state_again :: state where
  "state_again = with_frame [] state_loop"

subsection \<open>Inputs for calls\<close>

text \<open>
  \<^verbatim>\<open>var n = 1; function f(n) { n } print(f());\<close>: the parameter \<open>n\<close> gets no argument,
  and the global frame, which is the closure of \<open>f\<close>, binds the same name.
\<close>

definition src_shadow :: string where
  "src_shadow = ''var n = 1; function f(n) { n } print(f());''"

definition prog_shadow :: "ASTNode list" where
  "prog_shadow =
     [VarDeclNode ''n'' (NumberNode (lit 1)),
      FunctionDeclNode ''f'' [''n''] (BlockNode [IdentifierNode ''n'']),
      CallNode ''print'' [CallNode ''f'' []]]"

text \<open>
  A state with \<^verbatim>\<open>var a = 1\<close>, \<^verbatim>\<open>var v = 1\<close>, \<^verbatim>\<open>function g() { a }\<close> and
  \<^verbatim>\<open>function h(p, q) { q }\<close> in the global frame, and a second frame (as of a running
  call) that binds \<open>a\<close> to 5.
\<close>

definition fun_g :: Value where
  "fun_g = Function [] (BlockNode [IdentifierNode ''a'']) 0"

definition fun_h :: Value where
  "fun_h = Function [''p'', ''q''] (BlockNode [IdentifierNode ''q'']) 0"

definition state_h :: state where
  "state_h =
     with_frame [(''a'', Number (lit 5))]
       (with_globals [(''a'', Number (lit 1)), (''v'', Number (lit 1)),
                      (''g'', fun_g), (''h'', fun_h)] state0)"

subsection \<open>Inputs for the event loop\<close>

text \<open>
  \<^verbatim>\<open>function f() { print("tick") y } setTimeout(f, 0);\<close>: the task prints and then
  throws. \<open>state_tick k\<close> is the state after the task has fired k times.
\<close>

definition src_tick :: string where
  "src_tick = ''function f() { print(\"tick\") y } setTimeout(f, 0);''"

definition body_tick :: ASTNode where
  "body_tick = BlockNode [CallNode ''print'' [StringNode ''tick''], IdentifierNode ''y'']"

definition prog_tick :: "ASTNode list" where
  "prog_tick =
     [FunctionDeclNode ''f'' [] body_tick,
      CallNode ''setTimeout'' [IdentifierNode ''f'', NumberNode (lit 0)]]"

definition fun_tick :: Value where
  "fun_tick = Function [] body_tick 0"

definition tick_report :: string where
  "tick_report =
     ''[Event Loop] Processing async tasks...'' @ endl @ ''tick '' @ endl @
     ''Runtime Error: Undefined variable: y'' @ endl @ endl @ ''Ready.'' @ endl"

definition state_tick :: "nat \<Rightarrow> state" where
  "state_tick k =
     \<lparr>envs = envs (with_globals [(''f'', fun_tick)] state0)
               @ replicate k \<lparr>vars = Map.empty, parent = Some 0\<rparr>,
      out = banner @ concat (replicate k tick_report),
      taskQueue = [\<lparr>executeTime = 1000, callback = fun_tick\<rparr>],
      capacity = 1, clock = clock0, reads = Suc k\<rparr>"

subsection \<open>Inputs for the scenario of the specification\<close>

text \<open>
  The scenario as written in the specification, the same text without the semicolon
  inside the function body, and the statements the parser builds from the latter.
\<close>

definition scenario :: string where
  "scenario = ''var x = 10; function add(n){ x = x + n; } add(5); print(x);''"

definition scenario_no_semicolon :: string where
  "scenario_no_semicolon = ''var x = 10; function add(n){ x = x + n } add(5); print(x);''"

definition assign_stmt :: ASTNode where
  "assign_stmt = BinaryOpNode ''='' (IdentifierNode ''x'')
                   (BinaryOpNode ''+'' (IdentifierNode ''x'') (IdentifierNode ''n''))"

definition prog_add :: "ASTNode list" where
  "prog_add =
     [VarDeclNode ''x'' (NumberNode (lit 10)),
      FunctionDeclNode ''add'' [''n''] (BlockNode [assign_stmt]),
      CallNode ''add'' [NumberNode (lit 5)],
      CallNode ''print'' [IdentifierNode ''x'']]"

text \<open>
  The order "no result yet, or this result" between the results of a parsing function
  at two depth bounds.
\<close>

definition lep :: "'a option \<Rightarrow> 'a option \<Rightarrow> bool" where
  "lep a b = (a = None \<or> a = b)"

section \<open>Verification\<close>

subsection \<open>Evaluated arithmetic and field lemmas\<close>

lemma render_lit_1: "strip_zeros (to_string (lit 1)) = ''1.''" by code_simp
lemma dsub_0_1: "dsub dzero (lit 1) = lit (- 1)" by code_simp
lemma dadd_1_2: "dadd (lit 1) (lit 2) = lit 3" by code_simp
lemma deq_0_0: "deq (lit 0) dzero" by code_simp
lemma not_deq_1_0: "\<not> deq (lit 1) dzero" by code_simp

lemma fields_make_Value [simp]:
  "type make_Value = V_NULL" "numVal make_Value = dzero" "strVal make_Value = []"
  "boolVal make_Value = False" "params make_Value = []" "body make_Value = NullNode"
  "closure make_Value = None" "nativeFn make_Value = NoFn"
  by (simp_all add: make_Value_def)

lemma fields_set_type [simp]:
  "type (set_type t v) = t" "numVal (set_type t v) = numVal v" "strVal (set_type t v) = strVal v"
  "boolVal (set_type t v) = boolVal v" "params (set_type t v) = params v"
  "body (set_type t v) = body v" "closure (set_type t v) = closure v"
  "nativeFn (set_type t v) = nativeFn v"
  by (cases v; simp)+

lemma fields_set_numVal [simp]:
  "type (set_numVal x v) = type v" "numVal (set_numVal x v) = x" "strVal (set_numVal x v) = strVal v"
  "boolVal (set_numVal x v) = boolVal v"
  by (cases v; simp)+

lemma fields_set_strVal [simp]:
  "type (set_strVal x v) = type v" "numVal (set_strVal x v) = numVal v" "strVal (set_strVal x v) = x"
  "boolVal (set_strVal x v) = boolVal v"
  by (cases v; simp)+

lemma fields_set_boolVal [simp]:
  "type (set_boolVal x v) = type v" "numVal (set_boolVal x v) = numVal v"
  "strVal (set_boolVal x v) = strVal v" "boolVal (set_boolVal x v) = x"
  by (cases v; simp)+

lemma fields_set_func [simp]:
  "type (set_func ps b c v) = type v" "params (set_func ps b c v) = ps"
  "body (set_func ps b c v) = b" "closure (set_func ps b c v) = c"
  "nativeFn (set_func ps b c v) = nativeFn v"
  by (cases v; simp)+

lemma fields_set_nativeFn [simp]:
  "type (set_nativeFn f v) = type v" "nativeFn (set_nativeFn f v) = f"
  by (cases v; simp)+

lemma fields_Number [simp]: "type (Number x) = V_NUM" "numVal (Number x) = x"
  by (simp_all add: Number_def)

lemma fields_Str [simp]: "type (Str s) = V_STR" "strVal (Str s) = s" "numVal (Str s) = dzero"
  by (simp_all add: Str_def)

lemma fields_Boolean [simp]: "type (Boolean b) = V_BOOL" "boolVal (Boolean b) = b"
  by (simp_all add: Boolean_def)

lemma fold_values [simp]:
  "set_numVal x (set_type V_NUM make_Value) = Number x"
  "set_strVal s (set_type V_STR make_Value) = Str s"
  "set_boolVal b (set_type V_BOOL make_Value) = Boolean b"
  "set_type V_BOOL (set_boolVal b make_Value) = Boolean b"
  by (simp_all add: Number_def Str_def Boolean_def make_Value_def)

declare Null_def [simp]

lemma andThen_Return:
  "andThen m f = Some (Return v, st') \<longleftrightarrow>
     (\<exists>a st1. m = Some (Return a, st1) \<and> f a st1 = Some (Return v, st'))"
proof (cases m)
  case None
  then show ?thesis by simp
next
  case (Some p)
  obtain x s where "p = (x, s)" by (cases p)
  with Some show ?thesis by (cases x) auto
qed

lemma andThen_Throw:
  "andThen m f = Some (Throw e, st') \<longleftrightarrow>
     m = Some (Throw e, st') \<or> (\<exists>a st1. m = Some (Return a, st1) \<and> f a st1 = Some (Throw e, st'))"
proof (cases m)
  case None
  then show ?thesis by simp
next
  case (Some p)
  obtain x s where "p = (x, s)" by (cases p)
  with Some show ?thesis by (cases x) auto
qed

lemma arith_facts:
  "dadd (lit 0) (lit 1) = lit 1" "dadd (lit 1) (lit 1) = lit 2"
  "dless (lit 0) (lit 2)" "dless (lit 1) (lit 2)" "\<not> dless (lit 2) (lit 2)"
  by code_simp+

lemmas start_simps = state0_def initial_def globalEnv_def defineVar_def define_env_def
  lookup.simps newEnv_def cout_def printFn_def timeoutFn_def getCurrentTime_def push_back_def
  run_def tryBlock_def runCallback_def erase_def printed_def pending_def outcome_of_def

lemmas input_simps = start_simps with_globals_def with_frame_def call_frame_def
  eval_nat_numeral Let_def

lemma no_args: "evalElements n [] env [] st = Some (Return [], st)"
  by simp

subsection \<open>Sequences of statements\<close>

lemma runSync_append:
  "runSync n (pre @ rest) st = andThen (runSync n pre st) (\<lambda>u st1. runSync n rest st1)"
proof (induction pre arbitrary: st)
  case Nil
  show ?case by simp
next
  case (Cons a pre)
  show ?case
  proof (cases "if a \<noteq> NullNode then eval n a 0 st else Some (Return make_Value, st)")
    case None
    then show ?thesis by simp
  next
    case (Some p)
    obtain x s where p: "p = (x, s)" by (cases p)
    show ?thesis using Some p Cons.IH by (cases x) simp_all
  qed
qed

lemma evalStatements_append:
  "evalStatements n (pre @ rest) env v0 st =
     andThen (evalStatements n pre env v0 st) (\<lambda>v st1. evalStatements n rest env v st1)"
proof (induction pre arbitrary: st v0)
  case Nil
  show ?case by simp
next
  case (Cons a pre)
  show ?case
  proof (cases "eval n a env st")
    case None
    then show ?thesis by simp
  next
    case (Some p)
    obtain x s where p: "p = (x, s)" by (cases p)
    show ?thesis using Some p Cons.IH by (cases x) simp_all
  qed
qed

subsection \<open>Calls of user functions\<close>

lemma fields_Function [simp]:
  "type (Function ps blk env) = V_FUNC" "params (Function ps blk env) = ps"
  "body (Function ps blk env) = blk" "closure (Function ps blk env) = Some env"
  by (simp_all add: Function_def)

lemma bindParams_fresh:
  "bindParams (length h) ps as (st\<lparr>envs := h @ [\<lparr>vars = m, parent = q\<rparr>]\<rparr>)
     = st\<lparr>envs := h @ [\<lparr>vars = m(ps [\<mapsto>] as), parent = q\<rparr>]\<rparr>"
proof (induction ps arbitrary: as m)
  case Nil
  show ?case by simp
next
  case (Cons p ps)
  show ?case
  proof (cases as)
    case Nil
    then show ?thesis using Cons.IH [of "[]" m] by simp
  next
    case (Cons a as')
    let ?S = "st\<lparr>envs := h @ [\<lparr>vars = m, parent = q\<rparr>]\<rparr>"
    have step: "defineVar (length h) p a ?S
                  = st\<lparr>envs := h @ [\<lparr>vars = m(p \<mapsto> a), parent = q\<rparr>]\<rparr>"
      by (simp add: defineVar_def define_env_def)
    have "bindParams (length h) (p # ps) (a # as') ?S
            = bindParams (length h) ps as' (defineVar (length h) p a ?S)"
      by simp
    also have "\<dots> = bindParams (length h) ps as'
                       (st\<lparr>envs := h @ [\<lparr>vars = m(p \<mapsto> a), parent = q\<rparr>]\<rparr>)"
      by (simp only: step)
    also have "\<dots> = st\<lparr>envs := h @ [\<lparr>vars = (m(p \<mapsto> a))(ps [\<mapsto>] as'), parent = q\<rparr>]\<rparr>"
      by (rule Cons.IH)
    also have "(m(p \<mapsto> a))(ps [\<mapsto>] as') = m(p # ps [\<mapsto>] a # as')"
      by simp
    finally show ?thesis using Cons by simp
  qed
qed

lemma enter_call:
  "bindParams (fst (newEnv (closure func) st)) (params func) argVals (snd (newEnv (closure func) st))
     = call_frame func argVals st"
  using bindParams_fresh [where h = "envs st" and ps = "params func" and as = argVals
          and st = st and m = Map.empty and q = "closure func"]
  by (simp add: newEnv_def call_frame_def)

lemma eval_call_user:
  "lookup (envs st) env callee = Return func \<Longrightarrow> type func = V_FUNC \<Longrightarrow>
   evalElements n args env [] st = Some (Return argVals, st1) \<Longrightarrow>
   eval (Suc n) (CallNode callee args) env st
     = eval n (body func) (length (envs st1)) (call_frame func argVals st1)"
  using enter_call [of func st1 argVals] by (simp add: newEnv_def)

subsection \<open>Environment: lookup and assign\<close>

lemma lookup_chain:
  "wf_envs h \<Longrightarrow> e < length h \<Longrightarrow>
   lookup h e name =
     (case find (binds h name) (chain h e) of
        Some i \<Rightarrow> Return (the (vars (h ! i) name))
      | None \<Rightarrow> Throw (''Undefined variable: '' @ name))"
proof (induction h e name rule: lookup.induct)
  case (1 h e name)
  show ?case
  proof (cases "vars (h ! e) name")
    case (Some v)
    then show ?thesis using 1(3)
      by (subst lookup.simps, subst chain.simps) (auto simp: binds_def split: option.splits)
  next
    case None
    note nb = None
    show ?thesis
    proof (cases "parent (h ! e)")
      case None
      then show ?thesis using nb 1(3)
        by (subst lookup.simps, subst chain.simps) (auto simp: binds_def)
    next
      case (Some p)
      with 1 have lt: "p < e" by (auto simp: wf_envs_def split: option.splits)
      then have "p < length h" using 1(3) by simp
      with 1 nb Some lt have ih: "lookup h p name =
        (case find (binds h name) (chain h p) of
           Some i \<Rightarrow> Return (the (vars (h ! i) name))
         | None \<Rightarrow> Throw (''Undefined variable: '' @ name))" by simp
      show ?thesis using nb Some lt 1(3) ih
        by (subst lookup.simps, subst chain.simps) (auto simp: binds_def)
    qed
  qed
qed

lemma assign_chain:
  "wf_envs h \<Longrightarrow> e < length h \<Longrightarrow>
   assign h e name v =
     (case find (binds h name) (chain h e) of
        Some i \<Rightarrow> (Return (), h[i := (h ! i)\<lparr>vars := (vars (h ! i))(name \<mapsto> v)\<rparr>])
      | None \<Rightarrow> (Throw (''Cannot assign to undefined variable: '' @ name), h))"
proof (induction h e name v rule: assign.induct)
  case (1 h e name v)
  show ?case
  proof (cases "vars (h ! e) name")
    case (Some v)
    then show ?thesis using 1(3)
      by (subst assign.simps, subst chain.simps)
         (auto simp: binds_def define_env_def split: option.splits)
  next
    case None
    note nb = None
    show ?thesis
    proof (cases "parent (h ! e)")
      case None
      then show ?thesis using nb 1(3)
        by (subst assign.simps, subst chain.simps) (auto simp: binds_def)
    next
      case (Some p)
      with 1 have lt: "p < e" by (auto simp: wf_envs_def split: option.splits)
      then have "p < length h" using 1(3) by simp
      with 1 nb Some lt have ih: "assign h p name v =
        (case find (binds h name) (chain h p) of
           Some i \<Rightarrow> (Return (), h[i := (h ! i)\<lparr>vars := (vars (h ! i))(name \<mapsto> v)\<rparr>])
         | None \<Rightarrow> (Throw (''Cannot assign to undefined variable: '' @ name), h))" by simp
      show ?thesis using nb Some lt 1(3) ih
        by (subst assign.simps, subst chain.simps) (auto simp: binds_def)
    qed
  qed
qed

lemma wf_frames0: "wf_envs frames0"
  by (simp add: wf_envs_def frames0_def less_Suc_eq)

lemma chain_frames0: "chain frames0 1 = [1, 0]"
  by (simp add: chain.simps frames0_def)

text \<open>
  Claim C6. In a store whose parent references point to older frames, \<open>lookup\<close> from
  frame \<open>e\<close> returns the binding of the first frame that binds the name among the frames
  from \<open>e\<close> outwards, and throws the error "Undefined variable" when none of them does;
  \<open>assign\<close> replaces the binding in that same first frame and leaves every other frame
  as it was, and when no frame binds the name it throws "Cannot assign to undefined
  variable" and the store is unchanged: no binding is created.
\<close>

theorem lookup_assign_walk_chain:
  "wf_envs h \<and> e < length h \<longrightarrow>
   lookup h e name =
     (case find (binds h name) (chain h e) of
        Some i \<Rightarrow> Return (the (vars (h ! i) name))
      | None \<Rightarrow> Throw (''Undefined variable: '' @ name)) \<and>
   assign h e name v =
     (case find (binds h name) (chain h e) of
        Some i \<Rightarrow> (Return (), h[i := (h ! i)\<lparr>vars := (vars (h ! i))(name \<mapsto> v)\<rparr>])
      | None \<Rightarrow> (Throw (''Cannot assign to undefined variable: '' @ name), h))"
  using lookup_chain assign_chain by blast

text \<open>
  Witness for C6: from the inner frame of \<open>frames0\<close>, the name \<open>x\<close> is found and assigned
  in the outer frame, and the undeclared name \<open>z\<close> fails both ways without a change.
\<close>

theorem lookup_assign_walk_chain_witness:
  "wf_envs frames0 \<and> 1 < length frames0 \<and>
   lookup frames0 1 ''x'' = Return (Number (lit 1)) \<and>
   assign frames0 1 ''x'' Null =
     (Return (), [\<lparr>vars = [''x'' \<mapsto> Null], parent = None\<rparr>,
                  \<lparr>vars = [''y'' \<mapsto> Number (lit 2)], parent = Some 0\<rparr>]) \<and>
   lookup frames0 1 ''z'' = Throw ''Undefined variable: z'' \<and>
   assign frames0 1 ''z'' Null = (Throw ''Cannot assign to undefined variable: z'', frames0)"
  using lookup_assign_walk_chain [of frames0 1 "''x''" Null]
        lookup_assign_walk_chain [of frames0 1 "''z''" Null] wf_frames0 chain_frames0
  by (simp add: binds_def frames0_def)

subsection \<open>Binary operators\<close>

text \<open>The rule of \<open>+\<close>, and \<^verbatim>\<open>1 + 2\<close>.\<close>

lemma plus_rule:
  "eval n left env st = Some (Return l, st1) \<Longrightarrow>
   eval n right env st1 = Some (Return r, st2) \<Longrightarrow>
   eval (Suc n) (BinaryOpNode ''+'' left right) env st =
     Some (Return (if type l = V_STR \<or> type r = V_STR then Str (toString l @ toString r)
                   else Number (dadd (numVal l) (numVal r))), st2)"
  by (simp add: binop_def)

lemma plus_number_number:
  "eval 2 (BinaryOpNode ''+'' (NumberNode (lit 1)) (NumberNode (lit 2))) 0 state0
     = Some (Return (Number (lit 3)), state0)"
  by (simp add: numeral_2_eq_2 binop_def dadd_1_2)

text \<open>
  Claim C4. The rule of \<open>+\<close> holds as stated (\<open>plus_rule\<close>, \<open>plus_number_number\<close>), but the
  text rendering of a Number keeps the decimal point: \<^verbatim>\<open>"a" + 1\<close> evaluates to the
  String \<^verbatim>\<open>"a1."\<close>, not \<^verbatim>\<open>"a1"\<close>.
\<close>

theorem plus_string_number:
  "eval 2 (BinaryOpNode ''+'' (StringNode ''a'') (NumberNode (lit 1))) 0 state0
     = Some (Return (Str ''a1.''), state0)"
  by (simp add: numeral_2_eq_2 binop_def render_lit_1)

text \<open>
  Claim C2. The operator \<open>==\<close> looks at the tag of its left operand only: with a Number
  on the left it compares the numeric fields, and the numeric field of a String is 0, so
  \<^verbatim>\<open>0 == "a"\<close> evaluates to Boolean true.
\<close>

theorem eq_number_string:
  "eval 2 (BinaryOpNode ''=='' (NumberNode (lit 0)) (StringNode ''a'')) 0 state0
     = Some (Return (Boolean True), state0)"
  by (simp add: numeral_2_eq_2 binop_def deq_0_0)

text \<open>
  Claim C7, as amended. The operators \<open>-\<close>, \<open>*\<close>, \<open>/\<close>, \<open>>\<close> and \<open><\<close> check no tag and
  never fail: once both operands have evaluated, to values of any kind, the result is
  the Number (for \<open>-\<close>, \<open>*\<close>, \<open>/\<close>) or the Boolean (for \<open>>\<close>, \<open><\<close>) computed from the
  numeric fields of the two operands.
\<close>

theorem arithmetic_reads_numVal:
  "eval n left env st = Some (Return l, st1) \<Longrightarrow>
   eval n right env st1 = Some (Return r, st2) \<Longrightarrow>
   op \<in> {''-'', ''*'', ''/'', ''>'', ''<''} \<Longrightarrow>
   eval (Suc n) (BinaryOpNode op left right) env st =
     Some (Return
       (if op = ''-'' then Number (dsub (numVal l) (numVal r))
        else if op = ''*'' then Number (dmul (numVal l) (numVal r))
        else if op = ''/'' then Number (ddiv (numVal l) (numVal r))
        else if op = ''>'' then Boolean (dgreater (numVal l) (numVal r))
        else Boolean (dless (numVal l) (numVal r))), st2)"
proof -
  assume l: "eval n left env st = Some (Return l, st1)"
    and r: "eval n right env st1 = Some (Return r, st2)"
    and "op \<in> {''-'', ''*'', ''/'', ''>'', ''<''}"
  then consider "op = ''-''" | "op = ''*''" | "op = ''/''" | "op = ''>''" | "op = ''<''"
    by blast
  then show ?thesis
  proof cases
    case 1
    with l r show ?thesis by (simp add: binop_def)
  next
    case 2
    with l r show ?thesis by (simp add: binop_def)
  next
    case 3
    with l r show ?thesis by (simp add: binop_def)
  next
    case 4
    with l r show ?thesis by (simp add: binop_def)
  next
    case 5
    with l r show ?thesis by (simp add: binop_def)
  qed
qed

text \<open>Witness for C7: \<^verbatim>\<open>"a" - 1\<close>.\<close>

theorem arithmetic_reads_numVal_witness:
  "eval 1 (StringNode ''a'') 0 state0 = Some (Return (Str ''a''), state0) \<and>
   eval 1 (NumberNode (lit 1)) 0 state0 = Some (Return (Number (lit 1)), state0) \<and>
   ''-'' \<in> {''-'', ''*'', ''/'', ''>'', ''<''} \<and>
   eval 2 (BinaryOpNode ''-'' (StringNode ''a'') (NumberNode (lit 1))) 0 state0 =
     Some (Return (Number (lit (- 1))), state0)"
  using arithmetic_reads_numVal [of 1 "StringNode ''a''" 0 state0 "Str ''a''" state0
          "NumberNode (lit 1)" "Number (lit 1)" state0 "''-''"]
  by (simp add: dsub_0_1 numeral_2_eq_2)

text \<open>
  Counterexample to C7 as stated: \<^verbatim>\<open>"a" - 1\<close> has a String operand and does not fail;
  it evaluates to the Number -1.
\<close>

theorem minus_string_number:
  "eval 2 (BinaryOpNode ''-'' (StringNode ''a'') (NumberNode (lit 1))) 0 state0 =
     Some (Return (Number (lit (- 1))), state0)"
  by (simp add: numeral_2_eq_2 binop_def dsub_0_1)

subsection \<open>The condition of While\<close>

text \<open>
  Claim C3. While does not use the truthiness of If: its loop stops only on Boolean false
  or the Number 0, so a condition of any other kind keeps it running. In
  \<open>prog_while_string\<close> the condition is a String at the first test: the body runs (it
  prints \<^verbatim>\<open>go\<close>) instead of running zero times.
\<close>

theorem while_string_condition:
  "outcome_of (run 5 prog_while_string state0) = Some (Return ()) \<and>
   printed (run 5 prog_while_string state0) = banner @ ''go '' @ endl @ endl @ ''Ready.'' @ endl"
  by (simp add: prog_while_string_def eval_nat_numeral start_simps while_breaks_def truthy_def deq_0_0)

subsection \<open>Statements that yield Null\<close>

lemma while_yields_null:
  "eval n (WhileNode cond blk) env st = Some (Return v, st') \<Longrightarrow> v = make_Value"
proof (induction n arbitrary: st)
  case 0
  then show ?case by simp
next
  case (Suc n)
  from Suc.prems obtain c st1 where
    c: "eval n cond env st = Some (Return c, st1)" and
    r: "(if while_breaks c then Some (Return make_Value, st1)
         else andThen (eval n blk env st1) (\<lambda>b st2. eval n (WhileNode cond blk) env st2))
        = Some (Return v, st')"
    by (auto simp: andThen_Return)
  show ?case
  proof (cases "while_breaks c")
    case True
    with r show ?thesis by simp
  next
    case False
    with r obtain b st2 where "eval n (WhileNode cond blk) env st2 = Some (Return v, st')"
      by (auto simp: andThen_Return)
    then show ?thesis by (rule Suc.IH)
  qed
qed

lemma block_yields_last:
  "evalStatements n (ss @ [s]) env v0 st = Some (Return v, st') \<Longrightarrow>
   \<exists>st1. eval n s env st1 = Some (Return v, st')"
proof (induction ss arbitrary: v0 st)
  case Nil
  then show ?case by (auto simp: andThen_Return)
next
  case (Cons a ss)
  then show ?case by (auto simp: andThen_Return)
qed

lemma call_yields_body:
  assumes "eval n (CallNode f args) env st = Some (Return v, st')"
    and "lookup (envs st) env f = Return fv" and "type fv = V_FUNC"
  shows "\<exists>m scope st1. eval m (body fv) scope st1 = Some (Return v, st')"
proof (cases n)
  case 0
  with assms show ?thesis by simp
next
  case (Suc m)
  with assms obtain a st1 where
    "eval m (body fv) (fst (newEnv (closure fv) st1))
       (bindParams (fst (newEnv (closure fv) st1)) (params fv) a (snd (newEnv (closure fv) st1)))
     = Some (Return v, st')"
    by (auto simp: andThen_Return newEnv_def)
  then show ?thesis by blast
qed

lemma andThen_id: "andThen m (\<lambda>v s. Some (Return v, s)) = m"
proof (cases m)
  case None
  then show ?thesis by simp
next
  case (Some p)
  obtain x s where "p = (x, s)" by (cases p)
  with Some show ?thesis by (cases x) auto
qed

lemma evalStatements_single: "evalStatements n [s] env v0 st = eval n s env st"
proof -
  have "evalStatements n [] env = (\<lambda>v s. Some (Return v, s))"
    by (intro ext) simp
  then show ?thesis by (simp add: andThen_id)
qed

lemma if_no_else:
  assumes "eval n (IfNode ic it NullNode) env st = Some (Return v, st')"
  shows "v = Null \<or> (\<exists>k c s1. eval k ic env st = Some (Return c, s1) \<and> truthy c
                  \<and> eval k it env s1 = Some (Return v, st'))"
proof (cases n)
  case 0
  with assms show ?thesis by simp
next
  case (Suc k)
  with assms have "andThen (eval k ic env st)
       (\<lambda>c st1. if truthy c then eval k it env st1 else Some (Return make_Value, st1))
     = Some (Return v, st')" by (simp cong: if_cong)
  then obtain c s1 where c: "eval k ic env st = Some (Return c, s1)"
    and r: "(if truthy c then eval k it env s1 else Some (Return make_Value, s1)) = Some (Return v, st')"
    unfolding andThen_Return by blast
  show ?thesis
  proof (cases "truthy c")
    case True
    with c r show ?thesis by auto
  next
    case False
    with r show ?thesis by simp
  qed
qed

lemma call_yields_last:
  assumes "eval n (CallNode f args) env st = Some (Return v, st')"
    and "lookup (envs st) env f = Return fv" and "type fv = V_FUNC"
    and "body fv = BlockNode (ss @ [final])"
  shows "\<exists>k scope s. eval k final scope s = Some (Return v, st')"
proof -
  obtain m scope s where "eval m (BlockNode (ss @ [final])) scope s = Some (Return v, st')"
    using call_yields_body [OF assms(1-3)] assms(4) by auto
  then obtain k where "evalStatements k (ss @ [final]) scope make_Value s = Some (Return v, st')"
    by (cases m) auto
  then show ?thesis using block_yields_last by blast
qed

lemma call_block:
  assumes "lookup (envs st) env f = Return fv" and "type fv = V_FUNC"
    and "body fv = BlockNode (ss @ [final])"
    and "evalElements (Suc n) args env [] st = Some (Return argVals, sa)"
    and "evalStatements n ss (length (envs sa)) Null (call_frame fv argVals sa) = Some (Return u, sb)"
  shows "eval (Suc (Suc n)) (CallNode f args) env st = eval n final (length (envs sa)) sb"
proof -
  have "eval (Suc (Suc n)) (CallNode f args) env st
          = eval (Suc n) (BlockNode (ss @ [final])) (length (envs sa)) (call_frame fv argVals sa)"
    using eval_call_user [OF assms(1,2,4)] assms(3) by simp
  also have "\<dots> = eval n final (length (envs sa)) sb"
    using assms(5) by (simp add: evalStatements_append evalStatements_single del: evalStatements.simps)
  finally show ?thesis .
qed

text \<open>
  Claim C10. An empty Block yields Null. An If without else branch yields Null when its
  condition is not truthy. A While yields Null: when it stops at its first test, when it
  runs an iteration and the rest of the loop returns, and whenever it returns at all,
  after any number of iterations. A call of a user function whose body ends with a While
  returns Null: when the arguments, the statements before the While and the While return,
  the call returns Null in the state the While left, and whenever such a call returns, its
  value is Null. Likewise for a body that ends with an If without else branch: when the
  arguments, the statements before the If and the condition return and the condition is
  not truthy, the call returns Null; and whenever such a call returns, its value is Null
  unless the condition was truthy, and then it is the value of the then-branch.
\<close>

theorem null_results:
  "eval (Suc n) (BlockNode []) env st = Some (Return Null, st) \<and>
   (eval n cond env st = Some (Return c, st1) \<and> \<not> truthy c \<longrightarrow>
      eval (Suc n) (IfNode cond thenB NullNode) env st = Some (Return Null, st1)) \<and>
   (eval n cond env st = Some (Return c, st1) \<and> while_breaks c \<longrightarrow>
      eval (Suc n) (WhileNode cond blk) env st = Some (Return Null, st1)) \<and>
   (eval n cond env st = Some (Return c, st1) \<and> \<not> while_breaks c \<and>
    eval n blk env st1 = Some (Return b, st2) \<and>
    eval n (WhileNode cond blk) env st2 = Some (Return w, st3) \<longrightarrow>
      eval (Suc n) (WhileNode cond blk) env st = Some (Return Null, st3)) \<and>
   (eval n (WhileNode cond blk) env st = Some (Return v, st') \<longrightarrow> v = Null) \<and>
   (lookup (envs st) env f = Return fv \<and> type fv = V_FUNC \<and>
    body fv = BlockNode (ss @ [WhileNode cond blk]) \<and>
    evalElements (Suc n) args env [] st = Some (Return argVals, sa) \<and>
    evalStatements n ss (length (envs sa)) Null (call_frame fv argVals sa) = Some (Return u, sb) \<and>
    eval n (WhileNode cond blk) (length (envs sa)) sb = Some (Return w, sc) \<longrightarrow>
      eval (Suc (Suc n)) (CallNode f args) env st = Some (Return Null, sc)) \<and>
   (lookup (envs st) env f = Return fv \<and> type fv = V_FUNC \<and>
    body fv = BlockNode (ss @ [WhileNode cond blk]) \<and>
    eval n (CallNode f args) env st = Some (Return v, st') \<longrightarrow> v = Null) \<and>
   (lookup (envs st) env f = Return fv \<and> type fv = V_FUNC \<and>
    body fv = BlockNode (ss @ [IfNode cond thenB NullNode]) \<and>
    evalElements (Suc (Suc n)) args env [] st = Some (Return argVals, sa) \<and>
    evalStatements (Suc n) ss (length (envs sa)) Null (call_frame fv argVals sa)
      = Some (Return u, sb) \<and>
    eval n cond (length (envs sa)) sb = Some (Return c, sc) \<and> \<not> truthy c \<longrightarrow>
      eval (Suc (Suc (Suc n))) (CallNode f args) env st = Some (Return Null, sc)) \<and>
   (lookup (envs st) env f = Return fv \<and> type fv = V_FUNC \<and>
    body fv = BlockNode (ss @ [IfNode cond thenB NullNode]) \<and>
    eval n (CallNode f args) env st = Some (Return v, st') \<longrightarrow>
      v = Null \<or> (\<exists>k scope s c s1. eval k cond scope s = Some (Return c, s1) \<and> truthy c
                      \<and> eval k thenB scope s1 = Some (Return v, st')))"
proof (intro conjI impI)
  show "eval (Suc n) (BlockNode []) env st = Some (Return Null, st)"
    by simp
next
  assume "eval n cond env st = Some (Return c, st1) \<and> \<not> truthy c"
  then show "eval (Suc n) (IfNode cond thenB NullNode) env st = Some (Return Null, st1)"
    by simp
next
  assume "eval n cond env st = Some (Return c, st1) \<and> while_breaks c"
  then show "eval (Suc n) (WhileNode cond blk) env st = Some (Return Null, st1)"
    by simp
next
  assume a: "eval n cond env st = Some (Return c, st1) \<and> \<not> while_breaks c \<and>
    eval n blk env st1 = Some (Return b, st2) \<and>
    eval n (WhileNode cond blk) env st2 = Some (Return w, st3)"
  then have "w = make_Value" using while_yields_null by blast
  with a show "eval (Suc n) (WhileNode cond blk) env st = Some (Return Null, st3)"
    by simp
next
  assume "eval n (WhileNode cond blk) env st = Some (Return v, st')"
  then show "v = Null" unfolding Null_def by (rule while_yields_null)
next
  assume a: "lookup (envs st) env f = Return fv \<and> type fv = V_FUNC \<and>
    body fv = BlockNode (ss @ [WhileNode cond blk]) \<and>
    evalElements (Suc n) args env [] st = Some (Return argVals, sa) \<and>
    evalStatements n ss (length (envs sa)) Null (call_frame fv argVals sa) = Some (Return u, sb) \<and>
    eval n (WhileNode cond blk) (length (envs sa)) sb = Some (Return w, sc)"
  then have "w = make_Value" using while_yields_null by blast
  moreover have "eval (Suc (Suc n)) (CallNode f args) env st
                   = eval n (WhileNode cond blk) (length (envs sa)) sb"
    using a call_block by blast
  ultimately show "eval (Suc (Suc n)) (CallNode f args) env st = Some (Return Null, sc)"
    using a by simp
next
  assume a: "lookup (envs st) env f = Return fv \<and> type fv = V_FUNC \<and>
    body fv = BlockNode (ss @ [WhileNode cond blk]) \<and>
    eval n (CallNode f args) env st = Some (Return v, st')"
  then obtain k scope s where "eval k (WhileNode cond blk) scope s = Some (Return v, st')"
    using call_yields_last by blast
  then show "v = Null" unfolding Null_def by (rule while_yields_null)
next
  assume a: "lookup (envs st) env f = Return fv \<and> type fv = V_FUNC \<and>
    body fv = BlockNode (ss @ [IfNode cond thenB NullNode]) \<and>
    evalElements (Suc (Suc n)) args env [] st = Some (Return argVals, sa) \<and>
    evalStatements (Suc n) ss (length (envs sa)) Null (call_frame fv argVals sa)
      = Some (Return u, sb) \<and>
    eval n cond (length (envs sa)) sb = Some (Return c, sc) \<and> \<not> truthy c"
  have "eval (Suc (Suc (Suc n))) (CallNode f args) env st
          = eval (Suc n) (IfNode cond thenB NullNode) (length (envs sa)) sb"
    using a call_block by blast
  then show "eval (Suc (Suc (Suc n))) (CallNode f args) env st = Some (Return Null, sc)"
    using a by simp
next
  assume a: "lookup (envs st) env f = Return fv \<and> type fv = V_FUNC \<and>
    body fv = BlockNode (ss @ [IfNode cond thenB NullNode]) \<and>
    eval n (CallNode f args) env st = Some (Return v, st')"
  then obtain k scope s where "eval k (IfNode cond thenB NullNode) scope s = Some (Return v, st')"
    using call_yields_last by blast
  then show "v = Null \<or> (\<exists>k scope s c s1. eval k cond scope s = Some (Return c, s1) \<and> truthy c
                      \<and> eval k thenB scope s1 = Some (Return v, st'))"
    using if_no_else by blast
qed

lemma lookup_state_fg:
  "lookup (envs state_fg) 0 ''f'' = Return fun_loop"
  "lookup (envs state_fg) 0 ''g'' = Return fun_if"
  by (simp_all add: state_fg_def input_simps)

lemma cond_x: "eval 1 (IdentifierNode ''x'') 0 state_fg = Some (Return (Number (lit 0)), state_fg)"
  by (simp add: state_fg_def input_simps)

lemma cond_x_call:
  "eval 1 (IdentifierNode ''x'') (length (envs state_fg)) (with_frame [] state_fg)
     = Some (Return (Number (lit 0)), with_frame [] state_fg)"
  by (simp add: state_fg_def input_simps)

lemma not_truthy_0: "\<not> truthy (Number (lit 0))"
  by (simp add: truthy_def deq_0_0)

lemma cond_i:
  "eval 7 (BinaryOpNode ''<'' (IdentifierNode ''i'') (NumberNode (lit 2))) 0 state_fg
     = Some (Return (Boolean True), state_fg)"
  by (simp add: state_fg_def input_simps binop_def arith_facts dgreater_def)

lemma body_i:
  "eval 7 (BlockNode [VarDeclNode ''i'' (BinaryOpNode ''+'' (IdentifierNode ''i'') (NumberNode (lit 1)))])
     0 state_fg
     = Some (Return (Number (lit 1)), with_globals [(''i'', Number (lit 1))] state_fg)"
  by (simp add: state_fg_def input_simps binop_def arith_facts)

lemma rest_i:
  "eval 7 loop_i 0 (with_globals [(''i'', Number (lit 1))] state_fg)
     = Some (Return Null, with_globals [(''i'', Number (lit 2))] state_fg)"
  by (simp add: loop_i_def state_fg_def input_simps binop_def arith_facts while_breaks_def)

lemma loop_in_call:
  "eval 8 loop_i (length (envs state_fg)) (with_frame [] state_fg)
     = Some (Return Null, with_frame [(''i'', Number (lit 2))] state_fg)"
  by (simp add: loop_i_def state_fg_def input_simps binop_def arith_facts while_breaks_def)

lemma prefix_in_call:
  "evalStatements 8 [NumberNode (lit 7)] (length (envs state_fg)) Null
       (call_frame fun_loop [] state_fg)
     = Some (Return (Number (lit 7)), with_frame [] state_fg)"
  "evalStatements (Suc 1) [NumberNode (lit 7)] (length (envs state_fg)) Null
       (call_frame fun_if [] state_fg)
     = Some (Return (Number (lit 7)), with_frame [] state_fg)"
  by (simp_all add: call_frame_def with_frame_def fun_loop_def fun_if_def eval_nat_numeral)

text \<open>
  Witness for C10, in \<open>state_fg\<close>: \<^verbatim>\<open>if (x) { 1 }\<close> with \<open>x\<close> = 0 yields Null; the loop
  \<^verbatim>\<open>while (i < 2) { var i = i + 1 }\<close> runs two iterations and yields Null; the call
  \<^verbatim>\<open>f()\<close>, whose body ends with that loop, and the call \<^verbatim>\<open>g()\<close>, whose body ends
  with that If, return Null although the statement before is the Number 7.
\<close>

theorem null_results_witness:
  "eval 1 (IdentifierNode ''x'') 0 state_fg = Some (Return (Number (lit 0)), state_fg) \<and>
   \<not> truthy (Number (lit 0)) \<and>
   eval 2 if_x 0 state_fg = Some (Return Null, state_fg) \<and>
   eval 7 (BinaryOpNode ''<'' (IdentifierNode ''i'') (NumberNode (lit 2))) 0 state_fg
     = Some (Return (Boolean True), state_fg) \<and>
   \<not> while_breaks (Boolean True) \<and>
   eval 7 (BlockNode [VarDeclNode ''i''
              (BinaryOpNode ''+'' (IdentifierNode ''i'') (NumberNode (lit 1)))]) 0 state_fg
     = Some (Return (Number (lit 1)), with_globals [(''i'', Number (lit 1))] state_fg) \<and>
   eval 7 loop_i 0 (with_globals [(''i'', Number (lit 1))] state_fg)
     = Some (Return Null, with_globals [(''i'', Number (lit 2))] state_fg) \<and>
   eval 8 loop_i 0 state_fg = Some (Return Null, with_globals [(''i'', Number (lit 2))] state_fg) \<and>
   lookup (envs state_fg) 0 ''f'' = Return fun_loop \<and> type fun_loop = V_FUNC \<and>
   body fun_loop = BlockNode ([NumberNode (lit 7)] @ [loop_i]) \<and>
   eval 10 (CallNode ''f'' []) 0 state_fg
     = Some (Return Null, with_frame [(''i'', Number (lit 2))] state_fg) \<and>
   lookup (envs state_fg) 0 ''g'' = Return fun_if \<and> type fun_if = V_FUNC \<and>
   body fun_if = BlockNode ([NumberNode (lit 7)] @ [if_x]) \<and>
   eval 1 (IdentifierNode ''x'') (length (envs state_fg)) (with_frame [] state_fg)
     = Some (Return (Number (lit 0)), with_frame [] state_fg) \<and>
   eval 4 (CallNode ''g'' []) 0 state_fg = Some (Return Null, with_frame [] state_fg)"
proof -
  note if_rule = null_results [THEN conjunct2, THEN conjunct1, rule_format]
  note loop_rule = null_results [THEN conjunct2, THEN conjunct2, THEN conjunct2, THEN conjunct1,
                                 rule_format]
  note call_loop_rule = null_results [THEN conjunct2, THEN conjunct2, THEN conjunct2,
                                      THEN conjunct2, THEN conjunct2, THEN conjunct1, rule_format]
  note call_if_rule = null_results [THEN conjunct2, THEN conjunct2, THEN conjunct2,
                                    THEN conjunct2, THEN conjunct2, THEN conjunct2,
                                    THEN conjunct2, THEN conjunct1, rule_format]
  have nb: "\<not> while_breaks (Boolean True)"
    by (simp add: while_breaks_def)
  have b_loop: "body fun_loop = BlockNode ([NumberNode (lit 7)] @ [loop_i])"
    and b_if: "body fun_if = BlockNode ([NumberNode (lit 7)] @ [if_x])"
    and t_loop: "type fun_loop = V_FUNC" and t_if: "type fun_if = V_FUNC"
    by (simp_all add: fun_loop_def fun_if_def)
  have w_if: "eval (Suc 1) if_x 0 state_fg = Some (Return Null, state_fg)"
    unfolding if_x_def by (rule if_rule) (intro conjI, rule cond_x, rule not_truthy_0)
  have w_loop: "eval (Suc 7) loop_i 0 state_fg
                  = Some (Return Null, with_globals [(''i'', Number (lit 2))] state_fg)"
    unfolding loop_i_def
    by (rule loop_rule) (intro conjI, rule cond_i, rule nb, rule body_i, rule rest_i [unfolded loop_i_def])
  have w_f: "eval (Suc (Suc 8)) (CallNode ''f'' []) 0 state_fg
               = Some (Return Null, with_frame [(''i'', Number (lit 2))] state_fg)"
    by (rule call_loop_rule [where fv = fun_loop and ss = "[NumberNode (lit 7)]"])
       (intro conjI, rule lookup_state_fg(1), rule t_loop, rule b_loop [unfolded loop_i_def],
        rule no_args, rule prefix_in_call(1), rule loop_in_call [unfolded loop_i_def])
  have w_g: "eval (Suc (Suc (Suc 1))) (CallNode ''g'' []) 0 state_fg
               = Some (Return Null, with_frame [] state_fg)"
    by (rule call_if_rule [where fv = fun_if and ss = "[NumberNode (lit 7)]"])
       (intro conjI, rule lookup_state_fg(2), rule t_if, rule b_if [unfolded if_x_def],
        rule no_args, rule prefix_in_call(2), rule cond_x_call, rule not_truthy_0)
  have fuel: "Suc 1 = 2" "Suc 7 = 8" "Suc (Suc 8) = 10" "Suc (Suc (Suc 1)) = 4"
    by simp_all
  note facts = cond_x not_truthy_0 w_if [unfolded fuel(1)] cond_i nb body_i rest_i
    w_loop [unfolded fuel(2)] lookup_state_fg t_loop t_if b_loop b_if w_f [unfolded fuel(3)]
    cond_x_call w_g [unfolded fuel(4)]
  show ?thesis
    by (intro conjI) (rule facts)+
qed

subsection \<open>Errors unwind to the run command\<close>

lemma evalElements_append:
  "evalElements n (pre @ rest) env acc st =
     andThen (evalElements n pre env acc st) (\<lambda>vs st1. evalElements n rest env vs st1)"
proof (induction pre arbitrary: st acc)
  case Nil
  show ?case by simp
next
  case (Cons a pre)
  show ?case
  proof (cases "eval n a env st")
    case None
    then show ?thesis by simp
  next
    case (Some p)
    obtain x s where p: "p = (x, s)" by (cases p)
    show ?thesis using Some p Cons.IH by (cases x) simp_all
  qed
qed

lemma evalProps_append:
  "evalProps n (pre @ rest) env acc st =
     andThen (evalProps n pre env acc st) (\<lambda>kvs st1. evalProps n rest env kvs st1)"
proof (induction pre arbitrary: st acc)
  case Nil
  show ?case by simp
next
  case (Cons a pre)
  obtain key valNode where a: "a = (key, valNode)" by (cases a)
  show ?case
  proof (cases "eval n valNode env st")
    case None
    then show ?thesis using a by simp
  next
    case (Some p)
    obtain x s where p: "p = (x, s)" by (cases p)
    show ?thesis using Some p a Cons.IH by (cases x) simp_all
  qed
qed

lemma callback_frame: "snd (newEnv (closure cb) st) = call_frame cb [] st"
  by (simp add: newEnv_def call_frame_def)

text \<open>
  Claim C9. No node of the tree catches an exception. An error is raised by the lookup of
  an undeclared name (by an Identifier or by a Call) and by the call of a value that is
  not a function. An exception thrown while a node evaluates one of its parts (the left
  or the right operand of a BinaryOp, the initialiser of a VarDecl, the condition or a
  branch of an If, the condition, the body or a later iteration of a While, an element
  of an Array, a value of an Object, a statement of a Block, an argument or the body of
  a Call) leaves the node as the same exception, with the state as the throw left it;
  the parts after it are not evaluated (the result does not depend on them). An
  exception thrown by a top-level statement ends the run command: the statements after
  it are not evaluated, the command returns to the command loop, and its final state is
  the state the throw left (frames and pending tasks included) with only the report
  \<^verbatim>\<open>Runtime Error: \<close>message, an empty line and \<^verbatim>\<open>Ready.\<close> appended to the output. An
  exception thrown by the callback of a task leaves the sweep and the event loop and is
  reported by the run command in the same way.
\<close>

theorem error_unwinds_to_run:
  "(lookup (envs st) env name = Throw msg \<longrightarrow>
      eval (Suc n) (IdentifierNode name) env st = Some (Throw msg, st) \<and>
      eval (Suc n) (CallNode name args) env st = Some (Throw msg, st)) \<and>
   (lookup (envs st) env name = Return func \<and> type func \<noteq> V_NATIVE \<and> type func \<noteq> V_FUNC \<and>
    evalElements n args env [] st = Some (Return argVals, st1) \<longrightarrow>
      eval (Suc n) (CallNode name args) env st = Some (Throw (''Not a function: '' @ name), st1)) \<and>
   (eval n left env st = Some (Throw msg, st1) \<longrightarrow>
      eval (Suc n) (BinaryOpNode op left right) env st = Some (Throw msg, st1)) \<and>
   (eval n left env st = Some (Return l, st1) \<and> eval n right env st1 = Some (Throw msg, st2) \<longrightarrow>
      eval (Suc n) (BinaryOpNode op left right) env st = Some (Throw msg, st2)) \<and>
   (init \<noteq> NullNode \<and> eval n init env st = Some (Throw msg, st1) \<longrightarrow>
      eval (Suc n) (VarDeclNode name init) env st = Some (Throw msg, st1)) \<and>
   (eval n cond env st = Some (Throw msg, st1) \<longrightarrow>
      eval (Suc n) (IfNode cond thenB elseB) env st = Some (Throw msg, st1) \<and>
      eval (Suc n) (WhileNode cond blk) env st = Some (Throw msg, st1)) \<and>
   (eval n cond env st = Some (Return c, st1) \<and> truthy c \<and>
    eval n thenB env st1 = Some (Throw msg, st2) \<longrightarrow>
      eval (Suc n) (IfNode cond thenB elseB) env st = Some (Throw msg, st2)) \<and>
   (eval n cond env st = Some (Return c, st1) \<and> \<not> truthy c \<and> elseB \<noteq> NullNode \<and>
    eval n elseB env st1 = Some (Throw msg, st2) \<longrightarrow>
      eval (Suc n) (IfNode cond thenB elseB) env st = Some (Throw msg, st2)) \<and>
   (eval n cond env st = Some (Return c, st1) \<and> \<not> while_breaks c \<and>
    eval n blk env st1 = Some (Throw msg, st2) \<longrightarrow>
      eval (Suc n) (WhileNode cond blk) env st = Some (Throw msg, st2)) \<and>
   (eval n cond env st = Some (Return c, st1) \<and> \<not> while_breaks c \<and>
    eval n blk env st1 = Some (Return b, st2) \<and>
    eval n (WhileNode cond blk) env st2 = Some (Throw msg, st3) \<longrightarrow>
      eval (Suc n) (WhileNode cond blk) env st = Some (Throw msg, st3)) \<and>
   (evalElements n pre env acc st = Some (Return vs, st1) \<and>
    eval n el env st1 = Some (Throw msg, st2) \<longrightarrow>
      evalElements n (pre @ el # rest) env acc st = Some (Throw msg, st2)) \<and>
   (evalElements n elements env [] st = Some (Throw msg, st1) \<longrightarrow>
      eval (Suc n) (ArrayNode elements) env st = Some (Throw msg, st1) \<and>
      (lookup (envs st) env name = Return func \<longrightarrow>
         eval (Suc n) (CallNode name elements) env st = Some (Throw msg, st1))) \<and>
   (evalProps n props env kvs st = Some (Return kvs1, st1) \<and>
    eval n valNode env st1 = Some (Throw msg, st2) \<longrightarrow>
      evalProps n (props @ (key, valNode) # others) env kvs st = Some (Throw msg, st2)) \<and>
   (evalProps n props env [] st = Some (Throw msg, st1) \<longrightarrow>
      eval (Suc n) (ObjectNode props) env st = Some (Throw msg, st1)) \<and>
   (evalStatements n pre env Null st = Some (Return v1, st1) \<and>
    eval n stmt env st1 = Some (Throw msg, st2) \<longrightarrow>
      eval (Suc n) (BlockNode (pre @ stmt # rest)) env st = Some (Throw msg, st2)) \<and>
   (lookup (envs st) env name = Return func \<and> type func = V_FUNC \<and>
    evalElements n args env [] st = Some (Return argVals, st1) \<and>
    eval n (body func) (length (envs st1)) (call_frame func argVals st1) = Some (Throw msg, st2) \<longrightarrow>
      eval (Suc n) (CallNode name args) env st = Some (Throw msg, st2)) \<and>
   (runSync n pre st = Some (Return (), st1) \<and> stmt \<noteq> NullNode \<and>
    eval n stmt 0 st1 = Some (Throw msg, st2) \<longrightarrow>
      run n (pre @ stmt # rest) st =
        Some (Return (),
              st2\<lparr>out := out st2 @ ''Runtime Error: '' @ msg @ endl @ endl @ ''Ready.'' @ endl\<rparr>)) \<and>
   (eval n (body cb) (length (envs st)) (call_frame cb [] st) = Some (Throw msg, st1) \<longrightarrow>
      runCallback n cb st = Some (Throw msg, st1)) \<and>
   (i < length (taskQueue st) \<and> executeTime (taskQueue st ! i) \<le> now \<and>
    runCallback n (callback (taskQueue st ! i)) st = Some (Throw msg, st1) \<longrightarrow>
      sweep (Suc n) now i ranTask st = Some (Throw msg, st1)) \<and>
   (taskQueue st \<noteq> [] \<and>
    sweep n (clock st (reads st)) 0 False (st\<lparr>reads := reads st + 1\<rparr>) = Some (Throw msg, st1) \<longrightarrow>
      eventLoop (Suc n) st = Some (Throw msg, st1)) \<and>
   (taskQueue st \<noteq> [] \<and>
    sweep n (clock st (reads st)) 0 False (st\<lparr>reads := reads st + 1\<rparr>) = Some (Return ranAny, st1) \<and>
    eventLoop n st1 = Some (Throw msg, st2) \<longrightarrow>
      eventLoop (Suc n) st = Some (Throw msg, st2)) \<and>
   (runSync n stmts st = Some (Return (), st1) \<and> taskQueue st1 \<noteq> [] \<and>
    eventLoop n (st1\<lparr>out := out st1 @ ''[Event Loop] Processing async tasks...'' @ endl\<rparr>)
      = Some (Throw msg, st2) \<longrightarrow>
      run n stmts st =
        Some (Return (),
              st2\<lparr>out := out st2 @ ''Runtime Error: '' @ msg @ endl @ endl @ ''Ready.'' @ endl\<rparr>))"
proof (intro conjI impI; (elim conjE)?)
  assume a: "lookup (envs st) env name = Return func" "type func = V_FUNC"
    "evalElements n args env [] st = Some (Return argVals, st1)"
    "eval n (body func) (length (envs st1)) (call_frame func argVals st1) = Some (Throw msg, st2)"
  show "eval (Suc n) (CallNode name args) env st = Some (Throw msg, st2)"
    by (simp only: eval_call_user [OF a(1) a(2) a(3)] a(4))
next
  assume "eval n (body cb) (length (envs st)) (call_frame cb [] st) = Some (Throw msg, st1)"
  then show "runCallback n cb st = Some (Throw msg, st1)"
    using callback_frame [of cb st] by (simp add: runCallback_def newEnv_def)
next
  assume "runSync n pre st = Some (Return (), st1)" "stmt \<noteq> NullNode"
    "eval n stmt 0 st1 = Some (Throw msg, st2)"
  then show "run n (pre @ stmt # rest) st =
        Some (Return (),
              st2\<lparr>out := out st2 @ ''Runtime Error: '' @ msg @ endl @ endl @ ''Ready.'' @ endl\<rparr>)"
    by (simp add: run_def tryBlock_def runSync_append cout_def)
next
  assume "runSync n stmts st = Some (Return (), st1)" "taskQueue st1 \<noteq> []"
    "eventLoop n (st1\<lparr>out := out st1 @ ''[Event Loop] Processing async tasks...'' @ endl\<rparr>)
      = Some (Throw msg, st2)"
  then show "run n stmts st =
        Some (Return (),
              st2\<lparr>out := out st2 @ ''Runtime Error: '' @ msg @ endl @ endl @ ''Ready.'' @ endl\<rparr>)"
    by (simp add: run_def tryBlock_def cout_def)
qed (simp_all add: evalElements_append evalProps_append evalStatements_append getCurrentTime_def
       Let_def)

lemma to_long_long_0: "to_long_long (lit 0) = 0"
  by code_simp

lemma wrap64_1000: "wrap64 1000 = 1000"
  by code_simp

lemma pre_nested_runs: "runSync 6 pre_nested state0 = Some (Return (), state_pre)"
  by (simp add: pre_nested_def state_pre_def fun_bad_def Function_def input_simps clock0_def
        to_long_long_0 wrap64_1000)

lemma state_in_facts:
  "lookup (envs state_in) (length (envs state_pre)) ''y'' = Throw ''Undefined variable: y''"
  "eval 1 (IdentifierNode ''x'') (length (envs state_pre)) state_in
     = Some (Return (Number (lit 1)), state_in)"
  "lookup (envs state_pre) 0 ''f'' = Return fun_bad"
  "lookup (envs state_pre) 0 ''print'' = Return (set_nativeFn PrintFn (set_type V_NATIVE make_Value))"
  "call_frame fun_bad [] state_pre = state_in"
  "out state_in = banner"
  by (simp_all add: state_in_def state_pre_def fun_bad_def input_simps)

lemma state_failed_facts:
  "lookup (envs state_failed) 0 ''x'' = Return (Number (lit 1))"
  "taskQueue state_failed = [\<lparr>executeTime = 1000, callback = fun_bad\<rparr>]"
  "out state_failed = banner @ ''Runtime Error: Undefined variable: y'' @ endl @ endl @ ''Ready.'' @ endl"
  by (simp_all add: state_failed_def report_y_def state_in_def state_pre_def fun_bad_def input_simps)

lemma state_loop_facts:
  "state_failed\<lparr>out := out state_failed @ ''[Event Loop] Processing async tasks...'' @ endl\<rparr>
     = state_loop\<lparr>reads := 1\<rparr>"
  "taskQueue (state_loop\<lparr>reads := 1\<rparr>) \<noteq> []"
  "clock (state_loop\<lparr>reads := 1\<rparr>) (reads (state_loop\<lparr>reads := 1\<rparr>)) = 1001"
  "(state_loop\<lparr>reads := 1\<rparr>)\<lparr>reads := reads (state_loop\<lparr>reads := 1\<rparr>) + 1\<rparr> = state_loop"
  "0 < length (taskQueue state_loop)"
  "executeTime (taskQueue state_loop ! 0) \<le> 1001"
  "callback (taskQueue state_loop ! 0) = fun_bad"
  "call_frame fun_bad [] state_loop = state_again"
  "eval 3 body_bad (length (envs state_loop)) state_again
     = Some (Throw ''Undefined variable: y'', state_again)"
  by (simp_all add: state_again_def state_loop_def state_failed_def report_y_def state_in_def
        state_pre_def fun_bad_def body_bad_def input_simps clock0_def)

text \<open>
  Witness for C9, on \<open>prog_nested\<close>: the error is raised by the Identifier \<open>y\<close> in the body
  of \<open>f\<close> and passes through the \<^verbatim>\<open>+\<close>, the Block, the Call of \<open>f\<close>, the \<^verbatim>\<open>*\<close>, the
  arguments of \<^verbatim>\<open>print\<close> and the Call of \<^verbatim>\<open>print\<close> to the run command, which reports
  it; \<^verbatim>\<open>after\<close> is not printed, \<open>x\<close> stays defined and the task stays pending. The next
  run command fires that task, whose callback throws the same error through the sweep and
  the event loop.
\<close>

theorem error_unwinds_to_run_witness:
  "lookup (envs state_in) (length (envs state_pre)) ''y'' = Throw ''Undefined variable: y'' \<and>
   eval 1 (IdentifierNode ''y'') (length (envs state_pre)) state_in
     = Some (Throw ''Undefined variable: y'', state_in) \<and>
   eval 2 (BinaryOpNode ''+'' (IdentifierNode ''x'') (IdentifierNode ''y''))
       (length (envs state_pre)) state_in
     = Some (Throw ''Undefined variable: y'', state_in) \<and>
   eval 3 body_bad (length (envs state_pre)) state_in
     = Some (Throw ''Undefined variable: y'', state_in) \<and>
   lookup (envs state_pre) 0 ''f'' = Return fun_bad \<and>
   eval 4 (CallNode ''f'' []) 0 state_pre = Some (Throw ''Undefined variable: y'', state_in) \<and>
   eval 5 (BinaryOpNode ''*'' (CallNode ''f'' []) (NumberNode (lit 2))) 0 state_pre
     = Some (Throw ''Undefined variable: y'', state_in) \<and>
   evalElements 5 [BinaryOpNode ''*'' (CallNode ''f'' []) (NumberNode (lit 2))] 0 [] state_pre
     = Some (Throw ''Undefined variable: y'', state_in) \<and>
   eval 6 stmt_nested 0 state_pre = Some (Throw ''Undefined variable: y'', state_in) \<and>
   runSync 6 pre_nested state0 = Some (Return (), state_pre) \<and>
   run 6 prog_nested state0 = Some (Return (), state_failed) \<and>
   out state_failed
     = banner @ ''Runtime Error: Undefined variable: y'' @ endl @ endl @ ''Ready.'' @ endl \<and>
   lookup (envs state_failed) 0 ''x'' = Return (Number (lit 1)) \<and>
   taskQueue state_failed = [\<lparr>executeTime = 1000, callback = fun_bad\<rparr>] \<and>
   runCallback 3 fun_bad state_loop = Some (Throw ''Undefined variable: y'', state_again) \<and>
   sweep 4 1001 0 False state_loop = Some (Throw ''Undefined variable: y'', state_again) \<and>
   eventLoop 5 (state_loop\<lparr>reads := 1\<rparr>) = Some (Throw ''Undefined variable: y'', state_again) \<and>
   run 5 [] state_failed
     = Some (Return (), state_again\<lparr>out := out state_again @ report_y\<rparr>)"
proof -
  note origin =
    error_unwinds_to_run
      [THEN conjunct1, rule_format]
  note binop_right =
    error_unwinds_to_run
      [THEN conjunct2, THEN conjunct2, THEN conjunct2, THEN conjunct1, rule_format]
  note binop_left =
    error_unwinds_to_run
      [THEN conjunct2, THEN conjunct2, THEN conjunct1, rule_format]
  note element =
    error_unwinds_to_run
      [THEN conjunct2, THEN conjunct2, THEN conjunct2, THEN conjunct2, THEN conjunct2,
       THEN conjunct2, THEN conjunct2, THEN conjunct2, THEN conjunct2, THEN conjunct2,
       THEN conjunct1, rule_format]
  note arguments =
    error_unwinds_to_run
      [THEN conjunct2, THEN conjunct2, THEN conjunct2, THEN conjunct2, THEN conjunct2,
       THEN conjunct2, THEN conjunct2, THEN conjunct2, THEN conjunct2, THEN conjunct2,
       THEN conjunct2, THEN conjunct1, rule_format]
  note block =
    error_unwinds_to_run
      [THEN conjunct2, THEN conjunct2, THEN conjunct2, THEN conjunct2, THEN conjunct2,
       THEN conjunct2, THEN conjunct2, THEN conjunct2, THEN conjunct2, THEN conjunct2,
       THEN conjunct2, THEN conjunct2, THEN conjunct2, THEN conjunct2, THEN conjunct1,
       rule_format]
  note call_body =
    error_unwinds_to_run
      [THEN conjunct2, THEN conjunct2, THEN conjunct2, THEN conjunct2, THEN conjunct2,
       THEN conjunct2, THEN conjunct2, THEN conjunct2, THEN conjunct2, THEN conjunct2,
       THEN conjunct2, THEN conjunct2, THEN conjunct2, THEN conjunct2, THEN conjunct2,
       THEN conjunct1, rule_format]
  note run_sync =
    error_unwinds_to_run
      [THEN conjunct2, THEN conjunct2, THEN conjunct2, THEN conjunct2, THEN conjunct2,
       THEN conjunct2, THEN conjunct2, THEN conjunct2, THEN conjunct2, THEN conjunct2,
       THEN conjunct2, THEN conjunct2, THEN conjunct2, THEN conjunct2, THEN conjunct2,
       THEN conjunct2, THEN conjunct1, rule_format]
  note callback_rule =
    error_unwinds_to_run
      [THEN conjunct2, THEN conjunct2, THEN conjunct2, THEN conjunct2, THEN conjunct2,
       THEN conjunct2, THEN conjunct2, THEN conjunct2, THEN conjunct2, THEN conjunct2,
       THEN conjunct2, THEN conjunct2, THEN conjunct2, THEN conjunct2, THEN conjunct2,
       THEN conjunct2, THEN conjunct2, THEN conjunct1, rule_format]
  note sweep_rule =
    error_unwinds_to_run
      [THEN conjunct2, THEN conjunct2, THEN conjunct2, THEN conjunct2, THEN conjunct2,
       THEN conjunct2, THEN conjunct2, THEN conjunct2, THEN conjunct2, THEN conjunct2,
       THEN conjunct2, THEN conjunct2, THEN conjunct2, THEN conjunct2, THEN conjunct2,
       THEN conjunct2, THEN conjunct2, THEN conjunct2, THEN conjunct1, rule_format]
  note loop_rule =
    error_unwinds_to_run
      [THEN conjunct2, THEN conjunct2, THEN conjunct2, THEN conjunct2, THEN conjunct2,
       THEN conjunct2, THEN conjunct2, THEN conjunct2, THEN conjunct2, THEN conjunct2,
       THEN conjunct2, THEN conjunct2, THEN conjunct2, THEN conjunct2, THEN conjunct2,
       THEN conjunct2, THEN conjunct2, THEN conjunct2, THEN conjunct2, THEN conjunct1,
       rule_format]
  note run_loop =
    error_unwinds_to_run
      [THEN conjunct2, THEN conjunct2, THEN conjunct2, THEN conjunct2, THEN conjunct2,
       THEN conjunct2, THEN conjunct2, THEN conjunct2, THEN conjunct2, THEN conjunct2,
       THEN conjunct2, THEN conjunct2, THEN conjunct2, THEN conjunct2, THEN conjunct2,
       THEN conjunct2, THEN conjunct2, THEN conjunct2, THEN conjunct2, THEN conjunct2,
       THEN conjunct2, rule_format]
  have fuel: "Suc 0 = 1" "Suc 1 = 2" "Suc 2 = 3" "Suc 3 = 4" "Suc 4 = 5" "Suc 5 = 6"
    by simp_all
  have e1: "eval (Suc 0) (IdentifierNode ''y'') (length (envs state_pre)) state_in
              = Some (Throw ''Undefined variable: y'', state_in)"
    by (rule origin [THEN conjunct1]) (rule state_in_facts(1))
  have e2: "eval (Suc 1) (BinaryOpNode ''+'' (IdentifierNode ''x'') (IdentifierNode ''y''))
              (length (envs state_pre)) state_in
              = Some (Throw ''Undefined variable: y'', state_in)"
    by (rule binop_right) (intro conjI, rule state_in_facts(2), rule e1 [unfolded fuel(1)])
  have no_stmts: "evalStatements 2 [] (length (envs state_pre)) Null state_in
                    = Some (Return Null, state_in)"
    by simp
  have e3: "eval (Suc 2) body_bad (length (envs state_pre)) state_in
              = Some (Throw ''Undefined variable: y'', state_in)"
    using block [where pre = "[]" and rest = "[]", OF conjI [OF no_stmts e2 [unfolded fuel(2)]]]
    by (simp only: body_bad_def append_Nil)
  have b: "body fun_bad = body_bad" and t: "type fun_bad = V_FUNC"
    by (simp_all add: fun_bad_def)
  have e3': "eval 3 (body fun_bad) (length (envs state_pre)) (call_frame fun_bad [] state_pre)
               = Some (Throw ''Undefined variable: y'', state_in)"
    using e3 [unfolded fuel(3)] by (simp only: b state_in_facts(5))
  have e4: "eval (Suc 3) (CallNode ''f'' []) 0 state_pre
              = Some (Throw ''Undefined variable: y'', state_in)"
    by (rule call_body [where func = fun_bad and argVals = "[]" and ?st1.0 = state_pre])
       (intro conjI, rule state_in_facts(3), rule t, rule no_args, rule e3')
  have e5: "eval (Suc 4) (BinaryOpNode ''*'' (CallNode ''f'' []) (NumberNode (lit 2))) 0 state_pre
              = Some (Throw ''Undefined variable: y'', state_in)"
    by (rule binop_left) (rule e4 [unfolded fuel(4)])
  have e5': "evalElements 5 ([] @ BinaryOpNode ''*'' (CallNode ''f'' []) (NumberNode (lit 2)) # [])
               0 [] state_pre
              = Some (Throw ''Undefined variable: y'', state_in)"
    by (rule element [where ?st1.0 = state_pre]) (intro conjI, rule no_args, rule e5 [unfolded fuel(5)])
  have e5'': "evalElements 5 [BinaryOpNode ''*'' (CallNode ''f'' []) (NumberNode (lit 2))]
               0 [] state_pre
              = Some (Throw ''Undefined variable: y'', state_in)"
    using e5' by (simp only: append_Nil)
  have e6: "eval (Suc 5) stmt_nested 0 state_pre
              = Some (Throw ''Undefined variable: y'', state_in)"
    unfolding stmt_nested_def
    by (rule arguments [THEN conjunct2, rule_format, OF e5'']) (rule state_in_facts(4))
  have ne: "stmt_nested \<noteq> NullNode"
    by (simp add: stmt_nested_def)
  have failed: "state_in\<lparr>out := out state_in @ ''Runtime Error: '' @ ''Undefined variable: y''
                  @ endl @ endl @ ''Ready.'' @ endl\<rparr> = state_failed"
    by (simp add: state_failed_def report_y_def state_in_facts(6))
  have r6: "run 6 prog_nested state0 = Some (Return (), state_failed)"
    using run_sync [where rest = "[CallNode ''print'' [StringNode ''after'']]",
            OF conjI [OF pre_nested_runs conjI [OF ne e6 [unfolded fuel(6)]]]]
    by (simp only: prog_nested_def failed)
  have c3: "runCallback 3 fun_bad state_loop = Some (Throw ''Undefined variable: y'', state_again)"
    by (rule callback_rule) (simp only: b state_loop_facts(8) state_loop_facts(9))
  have s4: "sweep (Suc 3) 1001 0 False state_loop
              = Some (Throw ''Undefined variable: y'', state_again)"
    by (rule sweep_rule)
       (intro conjI, rule state_loop_facts(5), rule state_loop_facts(6),
        simp only: state_loop_facts(7) c3)
  have l5: "eventLoop (Suc 4) (state_loop\<lparr>reads := 1\<rparr>)
              = Some (Throw ''Undefined variable: y'', state_again)"
    by (rule loop_rule)
       (intro conjI, rule state_loop_facts(2),
        simp only: state_loop_facts(3) state_loop_facts(4) s4 [unfolded fuel(4)])
  have no_sync: "runSync 5 [] state_failed = Some (Return (), state_failed)"
    by simp
  have q: "taskQueue state_failed \<noteq> []"
    by (simp add: state_failed_facts(2))
  have again: "state_again\<lparr>out := out state_again @ ''Runtime Error: '' @ ''Undefined variable: y''
                  @ endl @ endl @ ''Ready.'' @ endl\<rparr>
               = state_again\<lparr>out := out state_again @ report_y\<rparr>"
    by (simp add: report_y_def)
  have r5: "run 5 [] state_failed
              = Some (Return (), state_again\<lparr>out := out state_again @ report_y\<rparr>)"
    using run_loop [where ?st1.0 = state_failed and ?st2.0 = state_again,
            OF conjI [OF no_sync conjI [OF q]]] l5 [unfolded fuel(5)]
    by (simp only: state_loop_facts(1) again)
  note facts = state_in_facts(1) e1 [unfolded fuel(1)] e2 [unfolded fuel(2)] e3 [unfolded fuel(3)]
    state_in_facts(3) e4 [unfolded fuel(4)] e5 [unfolded fuel(5)] e5'' e6 [unfolded fuel(6)]
    pre_nested_runs r6 state_failed_facts(3) state_failed_facts(1) state_failed_facts(2)
    c3 s4 [unfolded fuel(4)] l5 [unfolded fuel(5)] r5
  show ?thesis
    by (intro conjI) (rule facts)+
qed

subsection \<open>The parser: more depth keeps a result\<close>

lemma lep_refl [simp]: "lep a a" by (simp add: lep_def)
lemma lep_None [simp]: "lep None a" by (simp add: lep_def)

lemma lep_trans: "lep a b \<Longrightarrow> lep b c \<Longrightarrow> lep a c"
  by (auto simp: lep_def)

lemma lep_pbind:
  "lep m m' \<Longrightarrow> (\<And>a p. lep (f a p) (f' a p)) \<Longrightarrow> lep (pbind m f) (pbind m' f')"
proof -
  assume m: "lep m m'" and f: "\<And>a p. lep (f a p) (f' a p)"
  show ?thesis
  proof (cases m)
    case None
    then show ?thesis by simp
  next
    case (Some r)
    with m have eq: "m' = m" by (simp add: lep_def)
    show ?thesis
    proof (cases r)
      case (Return ap)
      obtain a p where "ap = (a, p)" by (cases ap)
      with Some Return eq f show ?thesis by simp
    next
      case (Throw e)
      with Some eq show ?thesis by simp
    next
      case Crash
      with Some eq show ?thesis by simp
    qed
  qed
qed

lemma lep_if:
  "lep a a' \<Longrightarrow> lep b b' \<Longrightarrow> lep (if c then a else b) (if c then a' else b')"
  by simp

lemma expr_mono:
  "lep (parseExpression n src pos) (parseExpression (Suc n) src pos)"
  "lep (parseComparison n src pos) (parseComparison (Suc n) src pos)"
  "lep (parseAdditive n src pos) (parseAdditive (Suc n) src pos)"
  "lep (additiveLoop n src left pos) (additiveLoop (Suc n) src left pos)"
  "lep (parseMultiplicative n src pos) (parseMultiplicative (Suc n) src pos)"
  "lep (multiplicativeLoop n src left pos) (multiplicativeLoop (Suc n) src left pos)"
  "lep (parsePrimary n src pos) (parsePrimary (Suc n) src pos)"
  "lep (listLoop n src close acc pos) (listLoop (Suc n) src close acc pos)"
proof (induction n arbitrary: src pos left close acc)
  case 0
  {
    case 1 show ?case by simp
  next
    case 2 show ?case by simp
  next
    case 3 show ?case by simp
  next
    case 4 show ?case by simp
  next
    case 5 show ?case by simp
  next
    case 6 show ?case by simp
  next
    case 7 show ?case by simp
  next
    case 8 show ?case by simp
  }
next
  case (Suc n)
  note IH = Suc.IH
  {
    case 1 show ?case
      apply (subst parseExpression.simps(2) [of "Suc n"])
      apply (subst parseExpression.simps(2) [of n])
      apply (rule IH)
      done
  next
    case 2 show ?case
      apply (subst parseComparison.simps(2) [of "Suc n"])
      apply (subst parseComparison.simps(2) [of n])
      unfolding Let_def
      apply (intro lep_refl IH lep_pbind lep_if)
      done
  next
    case 3 show ?case
      apply (subst parseAdditive.simps(2) [of "Suc n"])
      apply (subst parseAdditive.simps(2) [of n])
      apply (intro lep_refl IH lep_pbind lep_if)
      done
  next
    case 4 show ?case
      apply (subst additiveLoop.simps(2) [of "Suc n"])
      apply (subst additiveLoop.simps(2) [of n])
      unfolding Let_def
      apply (intro lep_refl IH lep_pbind lep_if)
      done
  next
    case 5 show ?case
      apply (subst parseMultiplicative.simps(2) [of "Suc n"])
      apply (subst parseMultiplicative.simps(2) [of n])
      apply (intro lep_refl IH lep_pbind lep_if)
      done
  next
    case 6 show ?case
      apply (subst multiplicativeLoop.simps(2) [of "Suc n"])
      apply (subst multiplicativeLoop.simps(2) [of n])
      unfolding Let_def
      apply (intro lep_refl IH lep_pbind lep_if)
      done
  next
    case 7 show ?case
      apply (subst parsePrimary.simps(2) [of "Suc n"])
      apply (subst parsePrimary.simps(2) [of n])
      unfolding Let_def
      apply (intro lep_refl IH lep_pbind lep_if)
      done
  next
    case 8 show ?case
      apply (subst listLoop.simps(2) [of "Suc n"])
      apply (subst listLoop.simps(2) [of n])
      unfolding Let_def
      apply (intro lep_refl IH lep_pbind lep_if)
      done
  }
qed

lemma paramsLoop_mono: "lep (paramsLoop n src ps pos) (paramsLoop (Suc n) src ps pos)"
proof (induction n arbitrary: ps pos)
  case 0
  show ?case by simp
next
  case (Suc n)
  show ?case
    apply (subst paramsLoop.simps(2) [of "Suc n"])
    apply (subst paramsLoop.simps(2) [of n])
    unfolding Let_def split_def
    apply (intro lep_refl Suc.IH lep_pbind lep_if)
    done
qed

lemma stmt_mono:
  "lep (parseBlock n src pos) (parseBlock (Suc n) src pos)"
  "lep (blockLoop n src stmts pos) (blockLoop (Suc n) src stmts pos)"
  "lep (parseStatement n src pos) (parseStatement (Suc n) src pos)"
proof (induction n arbitrary: src pos stmts)
  case 0
  {
    case 1 show ?case by simp
  next
    case 2 show ?case by simp
  next
    case 3 show ?case by simp
  }
next
  case (Suc n)
  note IH = Suc.IH
  {
    case 1 show ?case
      apply (subst parseBlock.simps(2) [of "Suc n"])
      apply (subst parseBlock.simps(2) [of n])
      apply (intro lep_refl IH lep_pbind lep_if)
      done
  next
    case 2 show ?case
      apply (subst blockLoop.simps(2) [of "Suc n"])
      apply (subst blockLoop.simps(2) [of n])
      apply (intro lep_refl IH lep_pbind lep_if)
      done
  next
    case 3 show ?case
      apply (subst parseStatement.simps(2) [of "Suc n"])
      apply (subst parseStatement.simps(2) [of n])
      unfolding Let_def split_def
      apply (intro lep_refl IH expr_mono paramsLoop_mono lep_pbind lep_if)
      done
  }
qed

lemma parseStatement_le: "n \<le> m \<Longrightarrow> lep (parseStatement n src pos) (parseStatement m src pos)"
proof (induction m)
  case 0
  then show ?case by simp
next
  case (Suc m)
  show ?case
  proof (cases "n = Suc m")
    case True
    then show ?thesis by simp
  next
    case False
    with Suc.prems have "n \<le> m" by simp
    then have "lep (parseStatement n src pos) (parseStatement m src pos)" by (rule Suc.IH)
    then show ?thesis using stmt_mono(3) by (rule lep_trans)
  qed
qed

lemma paramsLoop_le: "n \<le> m \<Longrightarrow> lep (paramsLoop n src ps pos) (paramsLoop m src ps pos)"
proof (induction m)
  case 0
  then show ?case by simp
next
  case (Suc m)
  show ?case
  proof (cases "n = Suc m")
    case True
    then show ?thesis by simp
  next
    case False
    with Suc.prems have "n \<le> m" by simp
    then have "lep (paramsLoop n src ps pos) (paramsLoop m src ps pos)" by (rule Suc.IH)
    then show ?thesis using paramsLoop_mono by (rule lep_trans)
  qed
qed

lemma parseStatement_stable:
  "parseStatement N src pos = Some r \<Longrightarrow>
   parseStatement k src pos = None \<or> parseStatement k src pos = Some r"
  using parseStatement_le [of k N src pos] parseStatement_le [of N k src pos]
  by (cases "k \<le> N") (auto simp: lep_def)

lemma paramsLoop_stable:
  "paramsLoop N src ps pos = Some r \<Longrightarrow>
   paramsLoop k src ps pos = None \<or> paramsLoop k src ps pos = Some r"
  using paramsLoop_le [of k N src ps pos] paramsLoop_le [of N k src ps pos]
  by (cases "k \<le> N") (auto simp: lep_def)

text \<open>Facts about the scenario text, by evaluation.\<close>

lemma scenario_facts:
  "length scenario = 59"
  "peek scenario 38 = CHR '';''"
  "peek scenario 28 = CHR '' ''"
  "peek scenario 12 = CHR ''f''"
  "skipWhitespace scenario 0 = 0"
  "skipWhitespace scenario 11 = 12"
  "skipWhitespace scenario 12 = 12"
  "skipWhitespace scenario 20 = 21"
  "skipWhitespace scenario 27 = 27"
  "skipWhitespace scenario 38 = 38"
  "takeChars isalpha scenario 12 [] = (''function'', 20)"
  "parseToken scenario 21 = Return (''add'', 24)"
  by code_simp+

lemma scenario_statements:
  "parseStatement 10 scenario 0 = Some (Return (VarDeclNode ''x'' (NumberNode (lit 10)), 11))"
  "parseStatement 10 scenario 28 = Some (Return (assign_stmt, 38))"
  "parseStatement 10 scenario 38 = Some (Return (NullNode, 38))"
  "paramsLoop 10 scenario [] 25 = Some (Return ([''n''], 26))"
  by code_simp+

lemma blockLoop_stuck: "blockLoop k scenario stmts 38 = None"
proof (induction k arbitrary: stmts)
  case 0
  show ?case by simp
next
  case (Suc k)
  from parseStatement_stable [OF scenario_statements(3), of k] show ?case
  proof
    assume "parseStatement k scenario 38 = None"
    then show ?thesis by (simp add: scenario_facts)
  next
    assume "parseStatement k scenario 38 = Some (Return (NullNode, 38))"
    then show ?thesis by (simp add: scenario_facts Suc.IH)
  qed
qed

lemma blockLoop_body: "blockLoop k scenario [] 28 = None"
proof (cases k)
  case 0
  then show ?thesis by simp
next
  case (Suc j)
  from parseStatement_stable [OF scenario_statements(2), of j] show ?thesis
  proof
    assume "parseStatement j scenario 28 = None"
    then show ?thesis using Suc by (simp add: scenario_facts)
  next
    assume "parseStatement j scenario 28 = Some (Return (assign_stmt, 38))"
    then show ?thesis using Suc by (simp add: scenario_facts blockLoop_stuck)
  qed
qed

lemma parseBlock_diverges: "parseBlock k scenario 27 = None"
  by (cases k) (simp_all add: blockLoop_body)

lemma function_statement_diverges: "parseStatement k scenario 12 = None"
proof (cases k)
  case 0
  then show ?thesis by simp
next
  case (Suc j)
  from paramsLoop_stable [OF scenario_statements(4), of j] show ?thesis
  proof
    assume "paramsLoop j scenario [] 25 = None"
    then show ?thesis using Suc by (simp add: scenario_facts)
  next
    assume "paramsLoop j scenario [] 25 = Some (Return ([''n''], 26))"
    then show ?thesis using Suc by (simp add: scenario_facts parseBlock_diverges)
  qed
qed

lemma parseLoop_second: "parseLoop k scenario stmts 12 = None"
  by (cases k) (simp_all add: scenario_facts function_statement_diverges)

lemma parseLoop_diverges: "parseLoop k scenario [] 0 = None"
proof (cases k)
  case 0
  then show ?thesis by simp
next
  case (Suc j)
  from parseStatement_stable [OF scenario_statements(1), of j] show ?thesis
  proof
    assume "parseStatement j scenario 0 = None"
    then show ?thesis using Suc by (simp add: scenario_facts)
  next
    assume "parseStatement j scenario 0 = Some (Return (VarDeclNode ''x'' (NumberNode (lit 10)), 11))"
    then show ?thesis using Suc by (simp add: scenario_facts parseLoop_second)
  qed
qed

lemma parse_scenario_diverges: "parse n scenario = None"
  by (simp add: parse_def parseLoop_diverges)

end
